theory Spec2Isabelle
  imports Complex_Main "HOL-Library.Log_Nat"
begin

section \<open>JavaScript numbers\<close>

text \<open>
  The component computes with JavaScript numbers. A finite number is modelled by the real
  it denotes; the two infinities and NaN are kept, because a division by zero produces
  them instead of raising, and \<open>Math.max\<close>, \<open>Math.min\<close> and \<open>Math.floor\<close> treat them
  specially. The operations \<open>js_add\<close>, \<open>js_mul\<close>, \<open>js_div\<close> below are exact. The
  pixel computations use them: there rounding moves the last place of a pixel. The hit
  test floors the product of a fraction and a count, where rounding decides the integer,
  and computes with the operations in double precision that follow them. The sign of
  zero is not modelled.
\<close>

datatype jsnum = Num real | PosInf | NegInf | NaN

fun js_neg :: "jsnum \<Rightarrow> jsnum" where
  "js_neg (Num a) = Num (- a)"
| "js_neg PosInf = NegInf"
| "js_neg NegInf = PosInf"
| "js_neg NaN = NaN"

fun js_add :: "jsnum \<Rightarrow> jsnum \<Rightarrow> jsnum" where
  "js_add (Num a) (Num b) = Num (a + b)"
| "js_add NaN _ = NaN"
| "js_add _ NaN = NaN"
| "js_add PosInf NegInf = NaN"
| "js_add NegInf PosInf = NaN"
| "js_add PosInf _ = PosInf"
| "js_add _ PosInf = PosInf"
| "js_add NegInf _ = NegInf"
| "js_add _ NegInf = NegInf"

definition js_sub :: "jsnum \<Rightarrow> jsnum \<Rightarrow> jsnum" where
  "js_sub a b = js_add a (js_neg b)"

text \<open>The sign of a number: \<open>-1\<close>, \<open>0\<close> or \<open>1\<close>; NaN has none.\<close>

fun js_sign :: "jsnum \<Rightarrow> int" where
  "js_sign (Num a) = (if a < 0 then - 1 else if a = 0 then 0 else 1)"
| "js_sign PosInf = 1"
| "js_sign NegInf = - 1"
| "js_sign NaN = 0"

definition signed_inf :: "int \<Rightarrow> jsnum" where
  "signed_inf s = (if s < 0 then NegInf else PosInf)"

fun js_mul :: "jsnum \<Rightarrow> jsnum \<Rightarrow> jsnum" where
  "js_mul (Num a) (Num b) = Num (a * b)"
| "js_mul NaN _ = NaN"
| "js_mul _ NaN = NaN"
| "js_mul a b =
     (if js_sign a = 0 \<or> js_sign b = 0 then NaN else signed_inf (js_sign a * js_sign b))"

text \<open>
  Division never raises: a non-zero number over zero is an infinity, zero over zero is
  NaN. The zero divisors that occur here are positive zeros.
\<close>

fun js_div :: "jsnum \<Rightarrow> jsnum \<Rightarrow> jsnum" where
  "js_div (Num a) (Num b) =
     (if b \<noteq> 0 then Num (a / b)
      else if a = 0 then NaN
      else if 0 < a then PosInf else NegInf)"
| "js_div NaN _ = NaN"
| "js_div _ NaN = NaN"
| "js_div (Num a) _ = Num 0"
| "js_div a (Num b) = signed_inf (js_sign a * (if b < 0 then - 1 else 1))"
| "js_div _ _ = NaN"

text \<open>\<open>Math.max\<close>, \<open>Math.min\<close>: NaN when an argument is NaN.\<close>

fun js_max :: "jsnum \<Rightarrow> jsnum \<Rightarrow> jsnum" where
  "js_max (Num a) (Num b) = Num (max a b)"
| "js_max NaN _ = NaN"
| "js_max _ NaN = NaN"
| "js_max PosInf _ = PosInf"
| "js_max _ PosInf = PosInf"
| "js_max NegInf b = b"
| "js_max a NegInf = a"

fun js_min :: "jsnum \<Rightarrow> jsnum \<Rightarrow> jsnum" where
  "js_min (Num a) (Num b) = Num (min a b)"
| "js_min NaN _ = NaN"
| "js_min _ NaN = NaN"
| "js_min NegInf _ = NegInf"
| "js_min _ NegInf = NegInf"
| "js_min PosInf b = b"
| "js_min a PosInf = a"

fun js_floor :: "jsnum \<Rightarrow> jsnum" where
  "js_floor (Num a) = Num (of_int \<lfloor>a\<rfloor>)"
| "js_floor a = a"

subsection \<open>Double precision\<close>

text \<open>
  A JavaScript number is an IEEE 754 double: 53 significant binary digits. Every
  arithmetic operation returns the double nearest to the exact result, the one with the
  even last digit when two are equally near. The range of the exponent is not modelled:
  no result overflows to an infinity, and there are no subnormal numbers.

  \<open>binaryExponent x\<close> is, for a positive \<open>x\<close>, the \<open>e\<close> with \<open>2^e \<le> x < 2^(e+1)\<close>, read
  off the length in bits of the integer part of \<open>x\<close>, or of \<open>1 / x\<close> when \<open>x\<close> is below 1.
\<close>

definition binaryExponent :: "real \<Rightarrow> int" where
  "binaryExponent x =
     (if 1 \<le> x then bitlen \<lfloor>x\<rfloor> - 1 else - bitlen (\<lceil>1 / x\<rceil> - 1))"

text \<open>The nearest integer, the even one at a tie.\<close>

definition roundHalfEven :: "real \<Rightarrow> int" where
  "roundHalfEven q =
     (let f = \<lfloor>q\<rfloor>; r = q - of_int f
      in if r < 1 / 2 then f else if 1 / 2 < r then f + 1 else if even f then f else f + 1)"

text \<open>
  The nearest double: the number is scaled by the unit in its last place, which is 52
  binary digits below its leading one, rounded to an integer and scaled back.
\<close>

definition roundDouble :: "real \<Rightarrow> real" where
  "roundDouble x =
     (if x = 0 then 0
      else (let ulp = 2 powi (binaryExponent \<bar>x\<bar> - 52)
            in sgn x * of_int (roundHalfEven (\<bar>x\<bar> / ulp)) * ulp))"

text \<open>A number is a double when rounding leaves it as it is.\<close>

definition isDouble :: "real \<Rightarrow> bool" where
  "isDouble x \<longleftrightarrow> roundDouble x = x"

text \<open>
  A number as a double. The numbers that enter a computation in double precision are
  doubles: a real stands for the double nearest to it.
\<close>

fun js_round :: "jsnum \<Rightarrow> jsnum" where
  "js_round (Num a) = Num (roundDouble a)"
| "js_round a = a"

text \<open>The operators \<open>+\<close>, \<open>-\<close>, \<open>*\<close> and \<open>/\<close> on doubles: the exact result, rounded.\<close>

definition dbl_add :: "jsnum \<Rightarrow> jsnum \<Rightarrow> jsnum" where
  "dbl_add a b = js_round (js_add a b)"

definition dbl_sub :: "jsnum \<Rightarrow> jsnum \<Rightarrow> jsnum" where
  "dbl_sub a b = js_round (js_sub a b)"

definition dbl_mul :: "jsnum \<Rightarrow> jsnum \<Rightarrow> jsnum" where
  "dbl_mul a b = js_round (js_mul a b)"

definition dbl_div :: "jsnum \<Rightarrow> jsnum \<Rightarrow> jsnum" where
  "dbl_div a b = js_round (js_div a b)"

text \<open>
  A read with an integer index, \<open>undefined\<close> (\<open>None\<close>) outside the array; \<open>xs[i]\<close> for a
  number \<open>i\<close> reads so when \<open>i\<close> is integral.
\<close>

definition array_get :: "'a list \<Rightarrow> int \<Rightarrow> 'a option" where
  "array_get xs i = (if 0 \<le> i \<and> i < int (length xs) then Some (xs ! nat i) else None)"

definition js_get :: "'a list \<Rightarrow> jsnum \<Rightarrow> 'a option" where
  "js_get xs i =
     (case i of
        Num r \<Rightarrow> (if of_int \<lfloor>r\<rfloor> = r then array_get xs \<lfloor>r\<rfloor> else None)
      | _ \<Rightarrow> None)"

text \<open>\<open>undefined\<close> in arithmetic is NaN.\<close>

definition toNumber :: "real option \<Rightarrow> jsnum" where
  "toNumber v = (case v of Some r \<Rightarrow> Num r | None \<Rightarrow> NaN)"

datatype error = TypeError

section \<open>Durations and date markers\<close>

text \<open>
  Modelled from the spec: the core's \<open>Duration\<close>, which is not part of the source file:
  "a signed span of time with millisecond-equivalent granularity; supports addition,
  multiplication by a scalar, and exact integer division by another Duration (division
  yields either an integer count or not evenly divisible)". The source reads its field
  \<open>milliseconds\<close>.
\<close>

record Duration =
  milliseconds :: int

text \<open>
  Modelled from the spec: \<open>asRoughMs\<close> of the core, the length of a duration in
  milliseconds.
\<close>

definition asRoughMs :: "Duration \<Rightarrow> int" where
  "asRoughMs dur = milliseconds dur"

text \<open>
  Modelled from the spec: \<open>createDuration\<close> of the core, applied to a number: the
  duration of that many milliseconds ("compute duration = moment - dayStart").
\<close>

definition createDuration :: "int \<Rightarrow> Duration" where
  "createDuration n = \<lparr>milliseconds = n\<rparr>"

text \<open>
  Modelled from the spec: \<open>wholeDivideDurations\<close> of the core, the exact integer division
  of two durations: the integer count, or \<open>null\<close> (\<open>None\<close>) when the denominator does not
  evenly divide the numerator. No duration is evenly divided by the zero duration.
\<close>

definition wholeDivideDurations :: "Duration \<Rightarrow> Duration \<Rightarrow> int option" where
  "wholeDivideDurations numerator denominator =
     (if milliseconds denominator \<noteq> 0 \<and> milliseconds denominator dvd milliseconds numerator
      then Some (milliseconds numerator div milliseconds denominator)
      else None)"

text \<open>
  A \<open>DateMarker\<close> is carried by its time value \<open>valueOf()\<close>, in milliseconds.
\<close>

type_synonym DateMarker = int

text \<open>
  Modelled from the spec: \<open>startOfDay\<close> of the core. A marker is "an absolute point in
  time, normalized to a reporting time zone, with a well-defined start of day derivation":
  the start of its day is the last multiple of a day's length at or before it.
\<close>

definition startOfDay :: "DateMarker \<Rightarrow> DateMarker" where
  "startOfDay m = m - m mod 86400000"

text \<open>
  Modelled from the spec: \<open>multiplyDuration\<close> of the core, the "multiplication by a
  scalar" of "snapDuration * snapIndex". The scalar is a JavaScript number, so the product
  is carried by its millisecond count as a JavaScript number.
\<close>

definition multiplyDuration :: "Duration \<Rightarrow> jsnum \<Rightarrow> jsnum" where
  "multiplyDuration d n = js_mul (Num (of_int (milliseconds d))) n"

text \<open>
  Modelled from the spec: \<open>addDurations\<close> of the core, the "addition" of
  "time = minTime + snapDuration * snapIndex", here of a duration and a computed one.
\<close>

definition addDurations :: "Duration \<Rightarrow> jsnum \<Rightarrow> jsnum" where
  "addDurations d0 ms1 = js_add (Num (of_int (milliseconds d0))) ms1"

text \<open>
  Modelled from the spec: \<open>dateEnv.add\<close> of the core, "start = dayStart(column) + time;
  end = start + snapDuration". A computed marker is carried by its time value as a
  JavaScript number; one that is not finite is JavaScript's Invalid Date.
\<close>

definition dateEnv_add :: "jsnum \<Rightarrow> jsnum \<Rightarrow> jsnum" where
  "dateEnv_add marker ms = js_add marker ms"

section \<open>The position cache\<close>

text \<open>
  Modelled from the spec: the core's \<open>PositionCache\<close>, which is not part of the source
  file. It holds, "for each indexed region, offset (leading edge), extent (size along the
  axis)". The source reads the arrays \<open>tops\<close>, \<open>lefts\<close> and \<open>rights\<close> and calls
  \<open>getHeight\<close>, \<open>leftToIndex\<close> and \<open>topToIndex\<close>.
\<close>

record PositionEntry =
  offset :: real
  extent :: real

type_synonym PositionCache = "PositionEntry list"

text \<open>Modelled from the spec: "derived farEdge = offset + extent".\<close>

definition farEdge :: "PositionEntry \<Rightarrow> real" where
  "farEdge e = offset e + extent e"

text \<open>
  Modelled from the spec: the array \<open>tops\<close> of a vertical cache, the offsets of its
  regions.
\<close>

definition tops :: "PositionCache \<Rightarrow> real list" where
  "tops pc = map offset pc"

text \<open>
  Modelled from the spec: the array \<open>lefts\<close> of a horizontal cache, the offsets of its
  regions.
\<close>

definition lefts :: "PositionCache \<Rightarrow> real list" where
  "lefts pc = map offset pc"

text \<open>
  Modelled from the spec: the array \<open>rights\<close> of a horizontal cache, the far edges of its
  regions.
\<close>

definition rights :: "PositionCache \<Rightarrow> real list" where
  "rights pc = map farEdge pc"

text \<open>
  Modelled from the spec: \<open>getHeight\<close>, the extent at an index, one of the "direct array
  reads". The source itself reads \<open>tops[i]\<close> as a plain array, which is \<open>undefined\<close>
  outside the cache and raises nothing; the extent is read the same way, an "index outside
  cache bounds" being "reported to the caller as a no result signal rather than a thrown
  fault", and is no number (NaN) there.
\<close>

definition getHeight :: "PositionCache \<Rightarrow> jsnum \<Rightarrow> jsnum" where
  "getHeight pc i = toNumber (js_get (map extent pc) i)"

text \<open>
  Modelled from the spec: \<open>positionToIndex\<close>, a scan "returning the index whose
  [offset, farEdge) interval contains the position, or not found (null) if the position is
  outside or the cache is empty"; \<open>scanPositions\<close> is its loop, from index \<open>i\<close> on.
\<close>

fun scanPositions :: "nat \<Rightarrow> PositionCache \<Rightarrow> real \<Rightarrow> nat option" where
  "scanPositions i [] position = None"
| "scanPositions i (e # es) position =
     (if offset e \<le> position \<and> position < farEdge e then Some i
      else scanPositions (Suc i) es position)"

definition positionToIndex :: "PositionCache \<Rightarrow> real \<Rightarrow> nat option" where
  "positionToIndex pc position = scanPositions 0 pc position"

text \<open>
  Modelled from the spec: \<open>leftToIndex\<close> and \<open>topToIndex\<close>, the lookup
  \<open>positionToIndex\<close> of a horizontal and of a vertical cache.
\<close>

definition leftToIndex :: "PositionCache \<Rightarrow> real \<Rightarrow> nat option" where
  "leftToIndex pc leftPosition = positionToIndex pc leftPosition"

definition topToIndex :: "PositionCache \<Rightarrow> real \<Rightarrow> nat option" where
  "topToIndex pc topPosition = positionToIndex pc topPosition"

section \<open>The component\<close>

text \<open>A DOM element is known by a number.\<close>

type_synonym Element = nat

text \<open>Of the date profile, the cells and the props, the fields the functions below read.\<close>

record DateProfile =
  minTime :: Duration

record DayBgCellModel =
  date :: DateMarker

record TimeColsProps =
  dateProfile :: DateProfile
  cells :: "DayBgCellModel list"

text \<open>
  The options the component reads. The two durations are the values their inputs denote
  (parsing the inputs is the core's \<open>createDuration\<close>); \<open>snapDuration\<close> may be absent.
\<close>

record Options =
  opt_slotDuration :: Duration
  opt_snapDuration :: "Duration option"
  timeGridEventMinHeight :: real

text \<open>
  The component: its props, the options of its context, the three computed options, the
  elements it has received, the measured height of \<open>slatRootEl\<close>, and its two position
  caches.
\<close>

record TimeCols =
  props :: TimeColsProps
  options :: Options
  slotDuration :: Duration
  snapDuration :: Duration
  snapsPerSlot :: int
  rootEl :: Element
  colContainerEls :: "Element list"
  colEls :: "Element list"
  slatRootElHeight :: real
  slatEls :: "Element list"
  colPositions :: PositionCache
  slatPositions :: PositionCache

text \<open>A segment; \<open>top\<close> and \<open>bottom\<close> are absent until they are computed.\<close>

record TimeColsSeg =
  seg_col :: int
  seg_start :: DateMarker
  seg_end :: DateMarker
  seg_top :: "jsnum option"
  seg_bottom :: "jsnum option"

subsection \<open>Options\<close>

text \<open>
  \<open>_processOptions\<close>: the snap duration defaults to the slot duration; when the division
  is not whole, the snap duration is the slot duration and there is one snap per slot.
\<close>

definition processOptions :: "TimeCols \<Rightarrow> Options \<Rightarrow> TimeCols" where
  "processOptions this opts =
     (let slotDuration0 = opt_slotDuration opts;
          snapDuration0 = (case opt_snapDuration opts of Some d \<Rightarrow> d | None \<Rightarrow> slotDuration0)
      in case wholeDivideDurations slotDuration0 snapDuration0 of
           None \<Rightarrow>
             this\<lparr>slotDuration := slotDuration0, snapDuration := slotDuration0, snapsPerSlot := 1\<rparr>
         | Some n \<Rightarrow>
             this\<lparr>slotDuration := slotDuration0, snapDuration := snapDuration0, snapsPerSlot := n\<rparr>)"

subsection \<open>Coordinates\<close>

text \<open>
  \<open>computeTimeTop\<close>, with the final values of its variables \<open>slatCoverage\<close> and
  \<open>slatIndex\<close> as functions of their own.
\<close>

definition slatCoverage :: "TimeCols \<Rightarrow> Duration \<Rightarrow> jsnum" where
  "slatCoverage this duration =
     (let len = Num (of_nat (length (slatEls this)));
          slatCoverage0 =
            js_div
              (js_sub (Num (of_int (milliseconds duration)))
                 (Num (of_int (asRoughMs (minTime (dateProfile (props this)))))))
              (Num (of_int (asRoughMs (slotDuration this))));
          slatCoverage1 = js_max (Num 0) slatCoverage0
      in js_min len slatCoverage1)"

definition slatIndex :: "TimeCols \<Rightarrow> Duration \<Rightarrow> jsnum" where
  "slatIndex this duration =
     (let len = Num (of_nat (length (slatEls this)));
          slatIndex0 = js_floor (slatCoverage this duration)
      in js_min slatIndex0 (js_sub len (Num 1)))"

definition computeTimeTop :: "TimeCols \<Rightarrow> Duration \<Rightarrow> jsnum" where
  "computeTimeTop this duration =
     (let slatCoverage = slatCoverage this duration;
          slatIndex = slatIndex this duration;
          slatRemainder = js_sub slatCoverage slatIndex
      in js_add (toNumber (js_get (tops (slatPositions this)) slatIndex))
           (js_mul (getHeight (slatPositions this) slatIndex) slatRemainder))"

text \<open>\<open>computeDateTop\<close>; the start of the day is derived when it is not given.\<close>

definition computeDateTop :: "TimeCols \<Rightarrow> DateMarker \<Rightarrow> DateMarker option \<Rightarrow> jsnum" where
  "computeDateTop this when startOfDayDate =
     (let startOfDayDate0 = (case startOfDayDate of None \<Rightarrow> startOfDay when | Some d \<Rightarrow> d)
      in computeTimeTop this (createDuration (when - startOfDayDate0)))"

subsection \<open>Segment verticals\<close>

text \<open>
  The loop assigns \<open>top\<close> and \<open>bottom\<close> to each segment in turn. \<open>cells[seg.col].date\<close>
  raises a TypeError when \<open>seg.col\<close> is no index of \<open>cells\<close>; the segments assigned
  before the raise are not reported by the model.
\<close>

fun computeSegVerticals :: "TimeCols \<Rightarrow> TimeColsSeg list \<Rightarrow> error + TimeColsSeg list" where
  "computeSegVerticals this [] = Inr []"
| "computeSegVerticals this (seg # segs) =
     (let eventMinHeight = timeGridEventMinHeight (options this)
      in case array_get (cells (props this)) (seg_col seg) of
           None \<Rightarrow> Inl TypeError
         | Some cell \<Rightarrow>
             (let dayDate = date cell;
                  top0 = computeDateTop this (seg_start seg) (Some dayDate);
                  bottom0 =
                    js_max (js_add top0 (Num eventMinHeight))
                      (computeDateTop this (seg_end seg) (Some dayDate))
              in case computeSegVerticals this segs of
                   Inl e \<Rightarrow> Inl e
                 | Inr segs' \<Rightarrow>
                     Inr (seg\<lparr>seg_top := Some top0, seg_bottom := Some bottom0\<rparr> # segs')))"

text \<open>
  The CSS properties of a segment: \<open>top\<close> and \<open>bottom\<close>. \<open>-seg.bottom\<close> of a segment
  with no \<open>bottom\<close> yet is NaN.
\<close>

record SegVerticalCss =
  css_top :: "jsnum option"
  css_bottom :: jsnum

definition generateSegVerticalCss :: "TimeColsSeg \<Rightarrow> SegVerticalCss" where
  "generateSegVerticalCss seg =
     \<lparr>css_top = seg_top seg,
      css_bottom = js_neg (case seg_bottom seg of Some b \<Rightarrow> b | None \<Rightarrow> NaN)\<rparr>"

text \<open>
  The height of the slat container: the component holds the container element, whose
  measured height is the field \<open>slatRootElHeight\<close>.
\<close>

definition getTotalSlatHeight :: "TimeCols \<Rightarrow> real" where
  "getTotalSlatHeight this = slatRootElHeight this"

subsection \<open>Now indicator\<close>

text \<open>
  A created node: its class, the number of its \<open>top\<close> style (in px) and the element it
  was appended to. \<open>_renderNowIndicator\<close> returns the nodes it created, none when it is
  given no date.
\<close>

record IndicatorNode =
  className :: string
  style_top :: jsnum
  appendedTo :: Element

text \<open>
  The loop over the segments; \<open>colContainerEls[segs[i].col].appendChild\<close> raises a
  TypeError when the column has no container, and the nodes created before the raise are
  not reported by the model.
\<close>

fun renderLines :: "TimeCols \<Rightarrow> jsnum \<Rightarrow> TimeColsSeg list \<Rightarrow> error + IndicatorNode list" where
  "renderLines this top0 [] = Inr []"
| "renderLines this top0 (seg # segs) =
     (case array_get (colContainerEls this) (seg_col seg) of
        None \<Rightarrow> Inl TypeError
      | Some containerEl \<Rightarrow>
          (case renderLines this top0 segs of
             Inl e \<Rightarrow> Inl e
           | Inr nodes \<Rightarrow>
               Inr (\<lparr>className = ''fc-now-indicator fc-now-indicator-line'',
                     style_top = top0, appendedTo = containerEl\<rparr> # nodes)))"

definition renderNowIndicator ::
  "TimeCols \<Rightarrow> DateMarker option \<Rightarrow> TimeColsSeg list \<Rightarrow> error + IndicatorNode list" where
  "renderNowIndicator this date0 segs =
     (case date0 of
        None \<Rightarrow> Inr []
      | Some d \<Rightarrow>
          (let top0 = computeDateTop this d None
           in case renderLines this top0 segs of
                Inl e \<Rightarrow> Inl e
              | Inr nodes \<Rightarrow>
                  Inr (nodes @
                    (if 0 < length segs
                     then [\<lparr>className = ''fc-now-indicator fc-now-indicator-arrow'',
                            style_top = top0, appendedTo = rootEl this\<rparr>]
                     else []))))"

subsection \<open>Hit system\<close>

text \<open>
  A hit: the column, the start and the end of the date span's range (time values), and
  the rectangle of the cell. The sides read straight from the caches may be \<open>undefined\<close>.
\<close>

record Rect =
  rect_left :: "real option"
  rect_right :: "real option"
  rect_top :: "real option"
  rect_bottom :: jsnum

record Hit =
  hit_col :: nat
  range_start :: jsnum
  range_end :: jsnum
  allDay :: bool
  dayEl :: "Element option"
  relativeRect :: Rect

text \<open>
  How far through its slat a position is: the fraction
  \<open>(positionTop - slatTop) / slatHeight\<close> of \<open>positionToHit\<close>, in exact arithmetic.
\<close>

definition hitPartial :: "PositionCache \<Rightarrow> real \<Rightarrow> nat \<Rightarrow> jsnum" where
  "hitPartial slatPositions0 positionTop slatIndex0 =
     (let slatTop = array_get (tops slatPositions0) (int slatIndex0);
          slatHeight = getHeight slatPositions0 (Num (of_nat slatIndex0))
      in js_div (js_sub (Num positionTop) (toNumber slatTop)) slatHeight)"

text \<open>
  The variable \<open>snapIndex\<close> of \<open>positionToHit\<close>, computed as the source computes it, in
  double precision: the position, the top and the height of the slat and the number of
  snaps per slot are doubles, and the subtraction and the division that give \<open>partial\<close>,
  the product that is floored, the product of the slat index and the sum are operations
  on doubles.
\<close>

definition hitSnapIndex :: "TimeCols \<Rightarrow> real \<Rightarrow> nat \<Rightarrow> jsnum" where
  "hitSnapIndex this positionTop slatIndex0 =
     (let snapsPerSlot0 = js_round (Num (of_int (snapsPerSlot this)));
          slatTop =
            js_round (toNumber (array_get (tops (slatPositions this)) (int slatIndex0)));
          slatHeight = js_round (getHeight (slatPositions this) (Num (of_nat slatIndex0)));
          partial = dbl_div (dbl_sub (js_round (Num positionTop)) slatTop) slatHeight;
          localSnapIndex = js_floor (dbl_mul partial snapsPerSlot0)
      in dbl_add (dbl_mul (Num (of_nat slatIndex0)) snapsPerSlot0) localSnapIndex)"

text \<open>
  The result is \<open>Inr None\<close> when the function returns nothing, and a TypeError when
  \<open>cells[colIndex].date\<close> is read for a column that has no cell.
\<close>

definition positionToHit :: "TimeCols \<Rightarrow> real \<Rightarrow> real \<Rightarrow> error + Hit option" where
  "positionToHit this positionLeft positionTop =
     (case (leftToIndex (colPositions this) positionLeft,
            topToIndex (slatPositions this) positionTop) of
        (Some colIndex, Some slatIndex0) \<Rightarrow>
          (let slatTop = array_get (tops (slatPositions this)) (int slatIndex0);
               slatHeight = getHeight (slatPositions this) (Num (of_nat slatIndex0));
               snapIndex = hitSnapIndex this positionTop slatIndex0
           in case array_get (cells (props this)) (int colIndex) of
                None \<Rightarrow> Inl TypeError
              | Some cell \<Rightarrow>
                  (let dayDate = date cell;
                       time =
                         addDurations (minTime (dateProfile (props this)))
                           (multiplyDuration (snapDuration this) snapIndex);
                       start = dateEnv_add (Num (of_int dayDate)) time;
                       end0 = dateEnv_add start (Num (of_int (milliseconds (snapDuration this))))
                   in Inr (Some
                        \<lparr>hit_col = colIndex,
                         range_start = start,
                         range_end = end0,
                         allDay = False,
                         dayEl = array_get (colEls this) (int colIndex),
                         relativeRect =
                           \<lparr>rect_left = array_get (lefts (colPositions this)) (int colIndex),
                            rect_right = array_get (rights (colPositions this)) (int colIndex),
                            rect_top = slatTop,
                            rect_bottom = js_add (toNumber slatTop) slatHeight\<rparr>\<rparr>)))
      | _ \<Rightarrow> Inr None)"

section \<open>The specification's words\<close>

text \<open>
  \<open>timeToPixel\<close> as the specification words it: "compute coverage = (duration - minTime) /
  slotDuration as a floating-point slot count; clamp coverage to [0, slatCount]; let index
  = floor(coverage) clamped to [0, slatCount - 1]; let fraction = coverage - index; result
  = slat.offset[index] + slat.extent[index] * fraction".
\<close>

definition timeToPixel_spec :: "PositionCache \<Rightarrow> int \<Rightarrow> int \<Rightarrow> int \<Rightarrow> real" where
  "timeToPixel_spec slat minTime0 slotDuration0 duration =
     (let slatCount = int (length slat);
          coverage = (of_int duration - of_int minTime0) / of_int slotDuration0;
          clamped = min (of_int slatCount) (max 0 coverage);
          index = min (slatCount - 1) (max 0 \<lfloor>clamped\<rfloor>);
          fraction = clamped - of_int index
      in offset (slat ! nat index) + extent (slat ! nat index) * fraction)"

text \<open>
  The cache invariant of the monotonicity property: the slats are "ordered top-to-bottom
  and non-overlapping", none of negative extent.
\<close>

fun slatsOrdered :: "PositionCache \<Rightarrow> bool" where
  "slatsOrdered [] = True"
| "slatsOrdered [e] = (0 \<le> extent e)"
| "slatsOrdered (e # e' # es) =
     (0 \<le> extent e \<and> farEdge e \<le> offset e' \<and> slatsOrdered (e' # es))"

text \<open>
  The distance of a top-relative pixel from the bottom edge of the slat container.
\<close>

definition distanceFromBottomEdge :: "TimeCols \<Rightarrow> real \<Rightarrow> real" where
  "distanceFromBottomEdge this pixel = getTotalSlatHeight this - pixel"

section \<open>The finite values of the coordinate computation\<close>

text \<open>
  When the slot duration is positive, the slat coverage and the slat index of
  \<open>computeTimeTop\<close> are these finite numbers.
\<close>

definition coverageOf :: "TimeCols \<Rightarrow> Duration \<Rightarrow> real" where
  "coverageOf this duration =
     min (real (length (slatEls this)))
       (max 0
          ((of_int (milliseconds duration)
              - of_int (asRoughMs (minTime (dateProfile (props this)))))
           / of_int (asRoughMs (slotDuration this))))"

definition indexOf :: "TimeCols \<Rightarrow> Duration \<Rightarrow> int" where
  "indexOf this duration =
     min \<lfloor>coverageOf this duration\<rfloor> (int (length (slatEls this)) - 1)"

text \<open>
  When the slat of a position is found, the snap index of \<open>positionToHit\<close> is this finite
  number.
\<close>

definition snapIndexOf :: "TimeCols \<Rightarrow> real \<Rightarrow> nat \<Rightarrow> real" where
  "snapIndexOf this positionTop slatIndex0 =
     (let slatTop = roundDouble (offset (slatPositions this ! slatIndex0));
          slatHeight = roundDouble (extent (slatPositions this ! slatIndex0));
          n = roundDouble (of_int (snapsPerSlot this));
          partial = roundDouble (roundDouble (roundDouble positionTop - slatTop) / slatHeight);
          localSnap = \<lfloor>roundDouble (partial * n)\<rfloor>
      in roundDouble (roundDouble (real slatIndex0 * n) + of_int localSnap))"

section \<open>Example grids\<close>

text \<open>
  A grid of two day columns, 100px wide each, and three hourly slats from 06:00 on, the
  first two 50px high and the third 30px, as it stands before the options are processed.
\<close>

definition initialTimeCols :: TimeCols where
  "initialTimeCols =
     \<lparr>props =
        \<lparr>dateProfile = \<lparr>minTime = \<lparr>milliseconds = 21600000\<rparr>\<rparr>,
         cells = [\<lparr>date = 0\<rparr>, \<lparr>date = 86400000\<rparr>]\<rparr>,
      options =
        \<lparr>opt_slotDuration = \<lparr>milliseconds = 3600000\<rparr>,
         opt_snapDuration = Some \<lparr>milliseconds = 900000\<rparr>,
         timeGridEventMinHeight = 10\<rparr>,
      slotDuration = \<lparr>milliseconds = 0\<rparr>,
      snapDuration = \<lparr>milliseconds = 0\<rparr>,
      snapsPerSlot = 0,
      rootEl = 0,
      colContainerEls = [1, 2],
      colEls = [3, 4],
      slatRootElHeight = 130,
      slatEls = [5, 6, 7],
      colPositions = [\<lparr>offset = 0, extent = 100\<rparr>, \<lparr>offset = 100, extent = 100\<rparr>],
      slatPositions =
        [\<lparr>offset = 0, extent = 50\<rparr>, \<lparr>offset = 50, extent = 50\<rparr>,
         \<lparr>offset = 100, extent = 30\<rparr>]\<rparr>"

text \<open>The same grid once its options (hourly slots, snapping by 15 minutes) are processed.\<close>

definition exampleTimeCols :: TimeCols where
  "exampleTimeCols = processOptions initialTimeCols (options initialTimeCols)"

text \<open>The specification's degenerate configuration: slots of 45 minutes, snaps of 20.\<close>

definition degenerateOptions :: Options where
  "degenerateOptions =
     \<lparr>opt_slotDuration = \<lparr>milliseconds = 2700000\<rparr>,
      opt_snapDuration = Some \<lparr>milliseconds = 1200000\<rparr>,
      timeGridEventMinHeight = 10\<rparr>"

text \<open>Hourly slots with a snap duration of minus 30 minutes.\<close>

definition negativeSnapOptions :: Options where
  "negativeSnapOptions =
     \<lparr>opt_slotDuration = \<lparr>milliseconds = 3600000\<rparr>,
      opt_snapDuration = Some \<lparr>milliseconds = - 1800000\<rparr>,
      timeGridEventMinHeight = 10\<rparr>"

text \<open>
  The specification's grid of one column spanning [0, 100) and one slat spanning [0, 50).
\<close>

definition singleCellTimeCols :: TimeCols where
  "singleCellTimeCols =
     exampleTimeCols
       \<lparr>props := (props exampleTimeCols)\<lparr>cells := [\<lparr>date = 0\<rparr>]\<rparr>,
        colContainerEls := [1], colEls := [3], slatRootElHeight := 50, slatEls := [5],
        colPositions := [\<lparr>offset = 0, extent = 100\<rparr>],
        slatPositions := [\<lparr>offset = 0, extent = 50\<rparr>]\<rparr>"

text \<open>The example grid with its middle slat collapsed to zero height.\<close>

definition collapsedSlatTimeCols :: TimeCols where
  "collapsedSlatTimeCols =
     exampleTimeCols
       \<lparr>slatRootElHeight := 80,
        slatPositions :=
          [\<lparr>offset = 0, extent = 50\<rparr>, \<lparr>offset = 50, extent = 0\<rparr>,
           \<lparr>offset = 50, extent = 30\<rparr>]\<rparr>"

text \<open>
  A grid of one slat of 90 minutes, 10px high, with snaps of one minute: 90 snaps per
  slot.
\<close>

definition fineSnapTimeCols :: TimeCols where
  "fineSnapTimeCols =
     (processOptions initialTimeCols
        \<lparr>opt_slotDuration = \<lparr>milliseconds = 5400000\<rparr>,
         opt_snapDuration = Some \<lparr>milliseconds = 60000\<rparr>,
         timeGridEventMinHeight = 10\<rparr>)
       \<lparr>slatRootElHeight := 10, slatEls := [5],
        slatPositions := [\<lparr>offset = 0, extent = 10\<rparr>]\<rparr>"

text \<open>The example grid with no slat at all.\<close>

definition noSlatTimeCols :: TimeCols where
  "noSlatTimeCols = exampleTimeCols\<lparr>slatRootElHeight := 0, slatEls := [], slatPositions := []\<rparr>"

text \<open>
  Two segments on the first day: a meeting from 06:30 to 08:30, and an event at 07:00 that
  takes no time.
\<close>

definition meetingSeg :: TimeColsSeg where
  "meetingSeg =
     \<lparr>seg_col = 0, seg_start = 23400000, seg_end = 30600000,
      seg_top = None, seg_bottom = None\<rparr>"

definition instantSeg :: TimeColsSeg where
  "instantSeg =
     \<lparr>seg_col = 0, seg_start = 25200000, seg_end = 25200000,
      seg_top = None, seg_bottom = None\<rparr>"

text \<open>The segments of the now indicator at 07:00 of the first day, one in each column.\<close>

definition nowSegs :: "TimeColsSeg list" where
  "nowSegs =
     [\<lparr>seg_col = 0, seg_start = 25200000, seg_end = 25260000,
       seg_top = None, seg_bottom = None\<rparr>,
      \<lparr>seg_col = 1, seg_start = 25200000, seg_end = 25260000,
       seg_top = None, seg_bottom = None\<rparr>]"

section \<open>Reading arrays\<close>

lemma js_get_int: "js_get xs (Num (of_int i)) = array_get xs i"
  by (simp add: js_get_def)

lemma js_get_nat: "js_get xs (Num (real i)) = array_get xs (int i)"
  using js_get_int[of xs "int i"] by simp

lemma js_get_neg: "r < 0 \<Longrightarrow> js_get xs (Num r) = None"
  by (auto simp add: js_get_def array_get_def)

section \<open>Rounding to a double\<close>

lemma binaryExponent_le:
  assumes "0 < x"
  shows "2 powi (binaryExponent x) \<le> x"
proof (cases "1 \<le> x")
  case True
  then have n: "0 < \<lfloor>x\<rfloor>" by simp
  then have b: "1 \<le> bitlen \<lfloor>x\<rfloor>" by (simp add: bitlen_alt_def)
  have "(2::int) ^ nat (bitlen \<lfloor>x\<rfloor> - 1) \<le> \<lfloor>x\<rfloor>"
    using bitlen_bounds[OF n] by simp
  then have "real_of_int (2 ^ nat (bitlen \<lfloor>x\<rfloor> - 1)) \<le> real_of_int \<lfloor>x\<rfloor>"
    by (simp only: of_int_le_iff)
  then have "(2::real) ^ nat (bitlen \<lfloor>x\<rfloor> - 1) \<le> real_of_int \<lfloor>x\<rfloor>" by simp
  also have "\<dots> \<le> x" by simp
  finally have "(2::real) ^ nat (bitlen \<lfloor>x\<rfloor> - 1) \<le> x" .
  moreover have "(2::real) powi (bitlen \<lfloor>x\<rfloor> - 1) = 2 ^ nat (bitlen \<lfloor>x\<rfloor> - 1)"
    using b by (simp add: power_int_def)
  ultimately show ?thesis using True by (simp add: binaryExponent_def)
next
  case False
  then have "1 < 1 / x" using assms by simp
  then have "2 \<le> \<lceil>1 / x\<rceil>" by linarith
  then have m: "0 < \<lceil>1 / x\<rceil> - 1" by simp
  let ?k = "bitlen (\<lceil>1 / x\<rceil> - 1)"
  have k: "0 \<le> ?k" by (rule bitlen_nonneg)
  have "\<lceil>1 / x\<rceil> - 1 < 2 ^ nat ?k" using bitlen_bounds[OF m] by simp
  then have "\<lceil>1 / x\<rceil> \<le> 2 ^ nat ?k" by simp
  then have "real_of_int \<lceil>1 / x\<rceil> \<le> real_of_int (2 ^ nat ?k)"
    by (simp only: of_int_le_iff)
  then have "real_of_int \<lceil>1 / x\<rceil> \<le> 2 ^ nat ?k" by simp
  moreover have "1 / x \<le> real_of_int \<lceil>1 / x\<rceil>" by (rule le_of_int_ceiling)
  ultimately have "1 / x \<le> 2 ^ nat ?k" by linarith
  then have "1 \<le> 2 ^ nat ?k * x" using assms by (simp add: pos_divide_le_eq)
  then have "1 / 2 ^ nat ?k \<le> x" by (simp add: pos_divide_le_eq mult.commute)
  moreover have "(2::real) powi (- ?k) = 1 / 2 ^ nat ?k"
    using k by (simp add: power_int_def field_simps)
  ultimately show ?thesis using False by (simp add: binaryExponent_def)
qed

lemma roundHalfEven_ge: "\<lfloor>q\<rfloor> \<le> roundHalfEven q"
  by (simp add: roundHalfEven_def Let_def)

text \<open>A positive number rounds to a positive double.\<close>

lemma roundDouble_pos:
  assumes "0 < x"
  shows "0 < roundDouble x"
proof -
  let ?e = "binaryExponent x"
  let ?ulp = "(2::real) powi (?e - 52)"
  have u: "0 < ?ulp" by simp
  have "?ulp \<le> 2 powi ?e" by (intro power_int_increasing) auto
  also have "\<dots> \<le> x" using binaryExponent_le[OF assms] .
  finally have "1 \<le> x / ?ulp" using u by (simp add: pos_le_divide_eq)
  then have "1 \<le> \<lfloor>x / ?ulp\<rfloor>" by simp
  then have "1 \<le> roundHalfEven (x / ?ulp)"
    using roundHalfEven_ge[of "x / ?ulp"] by linarith
  then have "0 < real_of_int (roundHalfEven (x / ?ulp)) * ?ulp" using u by simp
  then show ?thesis using assms by (simp add: roundDouble_def Let_def)
qed

section \<open>The coordinate computation\<close>

lemma slatCoverage_Num:
  assumes "0 < asRoughMs (slotDuration this)"
  shows "slatCoverage this d = Num (coverageOf this d)"
  using assms by (simp add: slatCoverage_def coverageOf_def js_sub_def Let_def)

lemma slatIndex_Num:
  assumes "0 < asRoughMs (slotDuration this)"
  shows "slatIndex this d = Num (of_int (indexOf this d))"
  using assms
  by (simp add: slatIndex_def slatCoverage_Num indexOf_def js_sub_def Let_def min_def)

lemma coverageOf_bounds:
  "0 \<le> coverageOf this d \<and> coverageOf this d \<le> real (length (slatEls this))"
  by (simp add: coverageOf_def)

lemma indexOf_bounds:
  assumes "slatEls this \<noteq> []"
  shows "0 \<le> indexOf this d \<and> indexOf this d \<le> int (length (slatEls this)) - 1"
proof -
  have "0 \<le> \<lfloor>coverageOf this d\<rfloor>"
    using coverageOf_bounds[of this d] by simp
  moreover have "0 \<le> int (length (slatEls this)) - 1"
    using assms by (cases "slatEls this") auto
  ultimately show ?thesis by (simp add: indexOf_def)
qed

lemma indexOf_empty:
  assumes "slatEls this = []"
  shows "indexOf this d = - 1"
proof -
  have "coverageOf this d = 0"
    using coverageOf_bounds[of this d] assms by simp
  then show ?thesis using assms by (simp add: indexOf_def)
qed

lemma computeTimeTop_Num:
  assumes "slatEls this \<noteq> []" "length (slatPositions this) = length (slatEls this)"
    "0 < asRoughMs (slotDuration this)"
  shows "computeTimeTop this d =
     Num (offset (slatPositions this ! nat (indexOf this d)) +
          extent (slatPositions this ! nat (indexOf this d)) *
            (coverageOf this d - of_int (indexOf this d)))"
proof -
  have b: "0 \<le> indexOf this d" "nat (indexOf this d) < length (slatPositions this)"
    using assms indexOf_bounds[OF assms(1), of d] by auto
  then show ?thesis
    using assms
    by (simp add: computeTimeTop_def slatCoverage_Num slatIndex_Num js_get_int array_get_def
          tops_def getHeight_def toNumber_def js_sub_def Let_def)
qed

lemma computeTimeTop_empty:
  assumes "slatEls this = []" "0 < asRoughMs (slotDuration this)"
  shows "computeTimeTop this d = NaN"
  using assms indexOf_empty[OF assms(1), of d]
  by (simp add: computeTimeTop_def slatCoverage_Num slatIndex_Num js_get_neg tops_def
        getHeight_def toNumber_def js_sub_def Let_def)

lemma timeToPixel_spec_eq:
  assumes "slatEls this \<noteq> []" "length (slatPositions this) = length (slatEls this)"
  shows "timeToPixel_spec (slatPositions this)
           (asRoughMs (minTime (dateProfile (props this))))
           (asRoughMs (slotDuration this)) (milliseconds d) =
         offset (slatPositions this ! nat (indexOf this d)) +
         extent (slatPositions this ! nat (indexOf this d)) *
           (coverageOf this d - of_int (indexOf this d))"
proof -
  have "0 \<le> \<lfloor>coverageOf this d\<rfloor>"
    using coverageOf_bounds[of this d] by simp
  then have "max 0 \<lfloor>coverageOf this d\<rfloor> = \<lfloor>coverageOf this d\<rfloor>" by simp
  then show ?thesis
    using assms
    by (simp add: timeToPixel_spec_def Let_def coverageOf_def[symmetric] indexOf_def
          min.commute)
qed

lemma computeTimeTop_before:
  assumes "slatEls this \<noteq> []" "length (slatPositions this) = length (slatEls this)"
    "0 < asRoughMs (slotDuration this)"
    "milliseconds d \<le> asRoughMs (minTime (dateProfile (props this)))"
  shows "computeTimeTop this d = Num (offset (slatPositions this ! 0))"
proof -
  have "(of_int (milliseconds d) - of_int (asRoughMs (minTime (dateProfile (props this)))))
          / real_of_int (asRoughMs (slotDuration this)) \<le> 0"
    using assms(3,4) by (simp add: divide_le_0_iff)
  then have cov: "coverageOf this d = 0" by (simp add: coverageOf_def max_def)
  then have "indexOf this d = 0"
    using assms(1) by (cases "slatEls this") (auto simp: indexOf_def)
  then show ?thesis
    using computeTimeTop_Num[OF assms(1-3), of d] cov by simp
qed

lemma computeTimeTop_after:
  assumes "slatEls this \<noteq> []" "length (slatPositions this) = length (slatEls this)"
    "0 < asRoughMs (slotDuration this)"
    "asRoughMs (minTime (dateProfile (props this)))
       + int (length (slatEls this)) * asRoughMs (slotDuration this) \<le> milliseconds d"
  shows "computeTimeTop this d = Num (farEdge (last (slatPositions this)))"
proof -
  let ?n = "length (slatEls this)"
  let ?m = "asRoughMs (minTime (dateProfile (props this)))"
  let ?s = "asRoughMs (slotDuration this)"
  have "real ?n * real_of_int ?s \<le> of_int (milliseconds d) - of_int ?m"
  proof -
    have "real_of_int (?m + int ?n * ?s) \<le> real_of_int (milliseconds d)"
      using assms(4) by (simp only: of_int_le_iff)
    then show ?thesis by simp
  qed
  then have "real ?n \<le> (of_int (milliseconds d) - of_int ?m) / real_of_int ?s"
    using assms(3) by (simp add: pos_le_divide_eq)
  then have cov: "coverageOf this d = real ?n" by (simp add: coverageOf_def)
  then have idx: "indexOf this d = int ?n - 1" by (simp add: indexOf_def)
  have "nat (int ?n - 1) = length (slatPositions this) - 1"
    using assms(1,2) by (cases "slatEls this") auto
  moreover have "slatPositions this \<noteq> []" using assms(1,2) by auto
  ultimately have "slatPositions this ! nat (int ?n - 1) = last (slatPositions this)"
    by (simp add: last_conv_nth)
  then show ?thesis
    using computeTimeTop_Num[OF assms(1-3), of d] cov idx by (simp add: farEdge_def)
qed

lemma computeDateTop_Num:
  assumes "slatEls this \<noteq> []" "length (slatPositions this) = length (slatEls this)"
    "0 < asRoughMs (slotDuration this)"
  shows "\<exists>t. computeDateTop this w sod = Num t"
  using computeTimeTop_Num[OF assms] by (simp add: computeDateTop_def Let_def)

section \<open>Ordered slats\<close>

lemma slatsOrdered_extent: "slatsOrdered pc \<Longrightarrow> i < length pc \<Longrightarrow> 0 \<le> extent (pc ! i)"
proof (induction pc arbitrary: i rule: slatsOrdered.induct)
  case 1
  then show ?case by simp
next
  case (2 e)
  then show ?case by simp
next
  case (3 e e' es)
  then show ?case by (cases i) auto
qed

lemma slatsOrdered_step:
  "slatsOrdered pc \<Longrightarrow> Suc i < length pc \<Longrightarrow> farEdge (pc ! i) \<le> offset (pc ! Suc i)"
proof (induction pc arbitrary: i rule: slatsOrdered.induct)
  case 1
  then show ?case by simp
next
  case (2 e)
  then show ?case by simp
next
  case (3 e e' es)
  then show ?case by (cases i) auto
qed

lemma slatsOrdered_chain:
  assumes "slatsOrdered pc" "j < length pc" "i < j"
  shows "farEdge (pc ! i) \<le> offset (pc ! j)"
  using assms(2,3)
proof (induction j)
  case 0
  then show ?case by simp
next
  case (Suc j)
  show ?case
  proof (cases "i = j")
    case True
    then show ?thesis
      using slatsOrdered_step[OF assms(1), of j] Suc.prems by simp
  next
    case False
    then have ij: "i < j" using Suc.prems by simp
    have "farEdge (pc ! i) \<le> offset (pc ! j)"
      using Suc.IH ij Suc.prems by simp
    also have "\<dots> \<le> farEdge (pc ! j)"
      using slatsOrdered_extent[OF assms(1), of j] Suc.prems by (simp add: farEdge_def)
    also have "\<dots> \<le> offset (pc ! Suc j)"
      using slatsOrdered_step[OF assms(1), of j] Suc.prems by simp
    finally show ?thesis .
  qed
qed

text \<open>Interpolating along an ordered cache is monotone in the coverage.\<close>

lemma interpolation_mono:
  fixes c1 c2 :: real
  assumes ord: "slatsOrdered pc" and n: "pc \<noteq> []"
    and c: "0 \<le> c1" "c1 \<le> c2" "c2 \<le> real (length pc)"
    and i1: "i1 = min \<lfloor>c1\<rfloor> (int (length pc) - 1)"
    and i2: "i2 = min \<lfloor>c2\<rfloor> (int (length pc) - 1)"
  shows "offset (pc ! nat i1) + extent (pc ! nat i1) * (c1 - of_int i1)
       \<le> offset (pc ! nat i2) + extent (pc ! nat i2) * (c2 - of_int i2)"
proof -
  have len: "0 < length pc" using n by simp
  have f1: "\<lfloor>c1\<rfloor> \<le> \<lfloor>c2\<rfloor>" using c by (auto intro: floor_mono)
  have zf: "0 \<le> \<lfloor>c1\<rfloor>" "0 \<le> \<lfloor>c2\<rfloor>" using c by auto
  have a1: "0 \<le> i1 \<and> i1 \<le> int (length pc) - 1" unfolding i1 using zf len by linarith
  have a2: "0 \<le> i2 \<and> i2 \<le> int (length pc) - 1" unfolding i2 using zf len by linarith
  have b1: "0 \<le> i1" "nat i1 < length pc" using a1 by linarith+
  have b2: "0 \<le> i2" "nat i2 < length pc" using a2 by linarith+
  have le: "i1 \<le> i2" using i1 i2 f1 by auto
  have r2: "0 \<le> c2 - of_int i2"
  proof -
    have "of_int i2 \<le> (of_int \<lfloor>c2\<rfloor> :: real)" using i2 by simp
    also have "\<dots> \<le> c2" by simp
    finally show ?thesis by simp
  qed
  have e1: "0 \<le> extent (pc ! nat i1)" using slatsOrdered_extent[OF ord b1(2)] .
  have e2: "0 \<le> extent (pc ! nat i2)" using slatsOrdered_extent[OF ord b2(2)] .
  show ?thesis
  proof (cases "i1 = i2")
    case True
    have "extent (pc ! nat i1) * (c1 - of_int i1) \<le> extent (pc ! nat i1) * (c2 - of_int i1)"
      using e1 c by (intro mult_left_mono) auto
    then show ?thesis using True by simp
  next
    case False
    then have lt: "i1 < i2" using le by simp
    then have "i1 < int (length pc) - 1" using i2 by simp
    then have fl: "i1 = \<lfloor>c1\<rfloor>" using i1 by simp
    have "c1 - of_int i1 \<le> 1" unfolding fl by linarith
    then have "extent (pc ! nat i1) * (c1 - of_int i1) \<le> extent (pc ! nat i1) * 1"
      using e1 by (intro mult_left_mono) auto
    then have "offset (pc ! nat i1) + extent (pc ! nat i1) * (c1 - of_int i1)
        \<le> farEdge (pc ! nat i1)"
      by (simp add: farEdge_def)
    also have "\<dots> \<le> offset (pc ! nat i2)"
      using slatsOrdered_chain[OF ord b2(2), of "nat i1"] lt b1 b2 by simp
    also have "\<dots> \<le> offset (pc ! nat i2) + extent (pc ! nat i2) * (c2 - of_int i2)"
      using e2 r2 by simp
    finally show ?thesis .
  qed
qed

lemma coverageOf_mono:
  assumes "0 < asRoughMs (slotDuration this)" "milliseconds d1 \<le> milliseconds d2"
  shows "coverageOf this d1 \<le> coverageOf this d2"
proof -
  let ?m = "asRoughMs (minTime (dateProfile (props this)))"
  have "(of_int (milliseconds d1) - of_int ?m) / real_of_int (asRoughMs (slotDuration this))
      \<le> (of_int (milliseconds d2) - of_int ?m) / real_of_int (asRoughMs (slotDuration this))"
    using assms by (intro divide_right_mono) auto
  then show ?thesis unfolding coverageOf_def by (intro min.mono max.mono) auto
qed

section \<open>The position lookup\<close>

lemma scanPositions_None:
  "scanPositions k pc p = None \<longleftrightarrow> (\<forall>e\<in>set pc. \<not> (offset e \<le> p \<and> p < farEdge e))"
  by (induction pc arbitrary: k) auto

lemma scanPositions_Some:
  "scanPositions k pc p = Some i \<Longrightarrow>
     k \<le> i \<and> i - k < length pc \<and> offset (pc ! (i - k)) \<le> p \<and> p < farEdge (pc ! (i - k))"
proof (induction pc arbitrary: k)
  case Nil
  then show ?case by simp
next
  case (Cons e es)
  show ?case
  proof (cases "offset e \<le> p \<and> p < farEdge e")
    case True
    then show ?thesis using Cons.prems by auto
  next
    case False
    then have "scanPositions (Suc k) es p = Some i" using Cons.prems by auto
    from Cons.IH[OF this] show ?thesis by (auto simp: Suc_diff_le)
  qed
qed

lemma positionToIndex_None:
  "positionToIndex pc p = None \<longleftrightarrow>
     (\<forall>i<length pc. \<not> (offset (pc ! i) \<le> p \<and> p < farEdge (pc ! i)))"
  unfolding positionToIndex_def scanPositions_None by (metis in_set_conv_nth)

lemma positionToIndex_Some:
  assumes "positionToIndex pc p = Some i"
  shows "i < length pc \<and> offset (pc ! i) \<le> p \<and> p < farEdge (pc ! i)"
  using scanPositions_Some[of 0 pc p i] assms by (simp add: positionToIndex_def)

lemma hitPartial_Num:
  assumes "topToIndex pc y = Some i"
  shows "i < length pc \<and> 0 < extent (pc ! i) \<and>
     hitPartial pc y i = Num ((y - offset (pc ! i)) / extent (pc ! i)) \<and>
     0 \<le> (y - offset (pc ! i)) / extent (pc ! i) \<and>
     (y - offset (pc ! i)) / extent (pc ! i) < 1"
proof -
  from assms have s: "i < length pc" "offset (pc ! i) \<le> y" "y < farEdge (pc ! i)"
    using positionToIndex_Some[of pc y i] by (auto simp: topToIndex_def)
  then have e: "0 < extent (pc ! i)" by (simp add: farEdge_def)
  have "hitPartial pc y i = Num ((y - offset (pc ! i)) / extent (pc ! i))"
    using s(1) e unfolding hitPartial_def Let_def
    by (simp add: js_get_nat array_get_def tops_def getHeight_def toNumber_def js_sub_def)
  moreover have "0 \<le> (y - offset (pc ! i)) / extent (pc ! i)" using s e by simp
  moreover have "(y - offset (pc ! i)) / extent (pc ! i) < 1"
    using s e by (simp add: farEdge_def)
  ultimately show ?thesis using s e by simp
qed

lemma hitSnapIndex_Num:
  assumes "topToIndex (slatPositions this) y = Some i"
  shows "hitSnapIndex this y i = Num (snapIndexOf this y i)"
proof -
  have "0 < extent (slatPositions this ! i)"
    using hitPartial_Num[OF assms] by simp
  then have "0 < roundDouble (extent (slatPositions this ! i))"
    by (rule roundDouble_pos)
  then have s: "i < length (slatPositions this)"
    "roundDouble (extent (slatPositions this ! i)) \<noteq> 0"
    using hitPartial_Num[OF assms] by auto
  then show ?thesis
    by (simp add: hitSnapIndex_def snapIndexOf_def dbl_add_def dbl_sub_def dbl_mul_def
          dbl_div_def js_sub_def js_get_nat array_get_def tops_def getHeight_def toNumber_def
          Let_def)
qed

section \<open>The loops\<close>

lemma renderLines_Inr:
  assumes "\<forall>seg\<in>set segs. 0 \<le> seg_col seg \<and> seg_col seg < int (length (colContainerEls this))"
  shows "renderLines this t segs =
     Inr (map (\<lambda>seg. \<lparr>className = ''fc-now-indicator fc-now-indicator-line'', style_top = t,
                       appendedTo = colContainerEls this ! nat (seg_col seg)\<rparr>) segs)"
  using assms by (induction segs) (auto simp: array_get_def)

lemma computeSegVerticals_Inr:
  assumes "\<forall>seg\<in>set segs. 0 \<le> seg_col seg \<and> seg_col seg < int (length (cells (props this)))"
  shows "computeSegVerticals this segs =
     Inr (map (\<lambda>seg.
        seg\<lparr>seg_top :=
              Some (computeDateTop this (seg_start seg)
                      (Some (date (cells (props this) ! nat (seg_col seg))))),
            seg_bottom :=
              Some (js_max
                 (js_add
                    (computeDateTop this (seg_start seg)
                       (Some (date (cells (props this) ! nat (seg_col seg)))))
                    (Num (timeGridEventMinHeight (options this))))
                 (computeDateTop this (seg_end seg)
                    (Some (date (cells (props this) ! nat (seg_col seg))))))\<rparr>) segs)"
  using assms by (induction segs) (auto simp: array_get_def Let_def)

lemma computeSegVerticals_cols:
  "computeSegVerticals this segs = Inr segs' \<Longrightarrow>
     \<forall>seg\<in>set segs. 0 \<le> seg_col seg \<and> seg_col seg < int (length (cells (props this)))"
proof (induction segs arbitrary: segs')
  case Nil
  then show ?case by simp
next
  case (Cons seg segs)
  then show ?case
    by (auto simp: array_get_def Let_def split: option.splits sum.splits if_splits)
qed

lemma whole_division_positive:
  fixes a b :: int
  assumes "b dvd a" "0 < a * b"
  shows "1 \<le> a div b"
proof -
  from assms(1) obtain k where k: "a = b * k" by (auto simp: dvd_def)
  from assms(2) have b: "b \<noteq> 0" by auto
  from assms(2) k have "0 < (b * b) * k" by (simp add: ac_simps)
  moreover have "0 < b * b" using b by (auto simp: zero_less_mult_iff)
  ultimately have "0 < k" by (simp add: zero_less_mult_iff)
  moreover have "a div b = k" using k b by simp
  ultimately show ?thesis by simp
qed

lemma positionToHit_found:
  assumes "leftToIndex (colPositions this) x = Some c"
    "topToIndex (slatPositions this) y = Some s"
    "array_get (cells (props this)) (int c) = Some cell"
  shows "positionToHit this x y =
     Inr (Some
       \<lparr>hit_col = c,
        range_start =
          Num (of_int (date cell) +
            (of_int (milliseconds (minTime (dateProfile (props this)))) +
             of_int (milliseconds (snapDuration this)) * snapIndexOf this y s)),
        range_end =
          Num (of_int (date cell) +
            (of_int (milliseconds (minTime (dateProfile (props this)))) +
             of_int (milliseconds (snapDuration this)) * snapIndexOf this y s) +
            of_int (milliseconds (snapDuration this))),
        allDay = False,
        dayEl = array_get (colEls this) (int c),
        relativeRect =
          \<lparr>rect_left = Some (offset (colPositions this ! c)),
           rect_right = Some (farEdge (colPositions this ! c)),
           rect_top = Some (offset (slatPositions this ! s)),
           rect_bottom =
             Num (offset (slatPositions this ! s) + extent (slatPositions this ! s))\<rparr>\<rparr>)"
proof -
  have c: "c < length (colPositions this)"
    using positionToIndex_Some[of "colPositions this" x c] assms(1) by (simp add: leftToIndex_def)
  have s: "s < length (slatPositions this)"
    using hitPartial_Num[OF assms(2)] by simp
  show ?thesis
    using assms c s hitSnapIndex_Num[OF assms(2)]
    by (simp add: positionToHit_def Let_def addDurations_def multiplyDuration_def
          dateEnv_add_def array_get_def js_get_nat lefts_def rights_def tops_def getHeight_def
          toNumber_def)
qed

lemma positionToHit_Some:
  assumes "positionToHit this x y = Inr (Some h)"
  shows "\<exists>c s cell. leftToIndex (colPositions this) x = Some c \<and>
     topToIndex (slatPositions this) y = Some s \<and>
     array_get (cells (props this)) (int c) = Some cell"
  using assms by (auto simp: positionToHit_def Let_def split: option.splits)

section \<open>The claims\<close>

text \<open>
  Claim C1, as amended. When the configured snap duration does not evenly divide the slot
  duration, option processing falls back to the slot duration as snap duration and to one
  snap per slot, and raises nothing. The number of snaps per slot is an integer that is at
  least 1 whenever the slot duration and the snap duration in force are non-zero and of
  the same sign, in particular when both are positive.
\<close>

theorem processOptions_snapsPerSlot:
  "(let snap0 = (case opt_snapDuration opts of Some d \<Rightarrow> d | None \<Rightarrow> opt_slotDuration opts);
        this' = processOptions this opts
    in slotDuration this' = opt_slotDuration opts \<and>
       (\<not> milliseconds snap0 dvd milliseconds (opt_slotDuration opts) \<longrightarrow>
          wholeDivideDurations (opt_slotDuration opts) snap0 = None) \<and>
       (wholeDivideDurations (opt_slotDuration opts) snap0 = None \<longrightarrow>
          snapDuration this' = opt_slotDuration opts \<and> snapsPerSlot this' = 1) \<and>
       (0 < milliseconds (opt_slotDuration opts) * milliseconds snap0 \<longrightarrow>
          1 \<le> snapsPerSlot this'))"
  by (auto simp add: processOptions_def Let_def wholeDivideDurations_def
        whole_division_positive split: option.splits)

theorem processOptions_snapsPerSlot_witness:
  "\<not> (1200000 :: int) dvd 2700000 \<and>
   wholeDivideDurations \<lparr>milliseconds = 2700000\<rparr> \<lparr>milliseconds = 1200000\<rparr> = None \<and>
   (0 :: int) < 2700000 * 1200000 \<and>
   slotDuration (processOptions initialTimeCols degenerateOptions) = \<lparr>milliseconds = 2700000\<rparr> \<and>
   snapDuration (processOptions initialTimeCols degenerateOptions) = \<lparr>milliseconds = 2700000\<rparr> \<and>
   snapsPerSlot (processOptions initialTimeCols degenerateOptions) = 1 \<and>
   1 \<le> snapsPerSlot (processOptions initialTimeCols degenerateOptions)"
  using processOptions_snapsPerSlot[of degenerateOptions initialTimeCols]
  by (simp add: degenerateOptions_def Let_def)

text \<open>
  The claim as stated, "in every case the resulting snapsPerSlot is an integer >= 1", fails
  for hourly slots with a snap duration of minus 30 minutes: the snap duration divides the
  slot duration evenly, and the count is -2.
\<close>

theorem processOptions_negative_snap_counterexample:
  "(- 1800000 :: int) dvd 3600000 \<and>
   snapDuration (processOptions initialTimeCols negativeSnapOptions)
     = \<lparr>milliseconds = - 1800000\<rparr> \<and>
   snapsPerSlot (processOptions initialTimeCols negativeSnapOptions) = - 2 \<and>
   \<not> 1 \<le> snapsPerSlot (processOptions initialTimeCols negativeSnapOptions)"
  by (simp add: processOptions_def negativeSnapOptions_def wholeDivideDurations_def Let_def)

text \<open>
  Claim C2. On a grid with at least one slat, measured, and a positive slot duration,
  \<open>computeTimeTop\<close> returns for every duration the number the specification's
  \<open>timeToPixel\<close> describes: the coverage \<open>(d - minTime) / slotDuration\<close> clamped to
  \<open>[0, slatCount]\<close>, its floor clamped to \<open>[0, slatCount - 1]\<close> as index, the rest as
  fraction, and the offset of the slat at the index plus its extent times the fraction. A
  duration at or before \<open>minTime\<close> maps to the top of the first slat (pixel 0 when the
  first slat starts there), one at or past the end of the slats to the bottom of the
  last slat; the result is always a finite number, never an error.
\<close>

theorem computeTimeTop_interpolates:
  assumes "slatEls this \<noteq> []"
    and "length (slatPositions this) = length (slatEls this)"
    and "0 < asRoughMs (slotDuration this)"
  shows "computeTimeTop this duration =
           Num (timeToPixel_spec (slatPositions this)
                  (asRoughMs (minTime (dateProfile (props this))))
                  (asRoughMs (slotDuration this)) (milliseconds duration)) \<and>
         (milliseconds duration \<le> asRoughMs (minTime (dateProfile (props this))) \<longrightarrow>
            computeTimeTop this duration = Num (offset (slatPositions this ! 0))) \<and>
         (asRoughMs (minTime (dateProfile (props this)))
            + int (length (slatEls this)) * asRoughMs (slotDuration this)
            \<le> milliseconds duration \<longrightarrow>
            computeTimeTop this duration = Num (farEdge (last (slatPositions this))))"
  using computeTimeTop_Num[OF assms, of duration] timeToPixel_spec_eq[OF assms(1,2), of duration]
    computeTimeTop_before[OF assms, of duration] computeTimeTop_after[OF assms, of duration]
  by simp

text \<open>
  On the example grid: 08:30 is half way through the third slat, pixel 115; 05:00 is before
  \<open>minTime\<close>, pixel 0; 12:00 is past the last slat, pixel 130.
\<close>

theorem computeTimeTop_interpolates_witness:
  "slatEls exampleTimeCols \<noteq> [] \<and>
   length (slatPositions exampleTimeCols) = length (slatEls exampleTimeCols) \<and>
   0 < asRoughMs (slotDuration exampleTimeCols) \<and>
   computeTimeTop exampleTimeCols (createDuration 30600000) = Num 115 \<and>
   milliseconds (createDuration 18000000)
     \<le> asRoughMs (minTime (dateProfile (props exampleTimeCols))) \<and>
   computeTimeTop exampleTimeCols (createDuration 18000000) = Num 0 \<and>
   asRoughMs (minTime (dateProfile (props exampleTimeCols)))
     + int (length (slatEls exampleTimeCols)) * asRoughMs (slotDuration exampleTimeCols)
     \<le> milliseconds (createDuration 43200000) \<and>
   computeTimeTop exampleTimeCols (createDuration 43200000) = Num 130"
proof -
  have h: "slatEls exampleTimeCols \<noteq> []"
    "length (slatPositions exampleTimeCols) = length (slatEls exampleTimeCols)"
    "0 < asRoughMs (slotDuration exampleTimeCols)"
    by (simp_all add: exampleTimeCols_def initialTimeCols_def processOptions_def
          wholeDivideDurations_def asRoughMs_def Let_def)
  show ?thesis
    using h computeTimeTop_interpolates[OF h, of "createDuration 30600000"]
      computeTimeTop_interpolates[OF h, of "createDuration 18000000"]
      computeTimeTop_interpolates[OF h, of "createDuration 43200000"]
    by (simp add: exampleTimeCols_def initialTimeCols_def processOptions_def
          wholeDivideDurations_def asRoughMs_def createDuration_def timeToPixel_spec_def
          farEdge_def Let_def)
qed

text \<open>
  Claim C3. On a measured grid with at least one slat and a positive slot duration, whose
  slats are ordered top to bottom and do not overlap, \<open>computeTimeTop\<close> is monotonically
  non-decreasing in the duration: for \<open>d1 \<le> d2\<close> both results are finite numbers and the
  first is at most the second. This holds for all durations, so in particular for those
  within \<open>[minTime, minTime + totalSlatSpan]\<close>.
\<close>

theorem computeTimeTop_monotone:
  assumes "slatEls this \<noteq> []"
    and "length (slatPositions this) = length (slatEls this)"
    and "0 < asRoughMs (slotDuration this)"
    and "slatsOrdered (slatPositions this)"
    and "milliseconds d1 \<le> milliseconds d2"
  shows "\<exists>t1 t2. computeTimeTop this d1 = Num t1 \<and> computeTimeTop this d2 = Num t2 \<and> t1 \<le> t2"
proof -
  have ne: "slatPositions this \<noteq> []" using assms(1,2) by auto
  have "offset (slatPositions this ! nat (indexOf this d1)) +
          extent (slatPositions this ! nat (indexOf this d1)) *
            (coverageOf this d1 - of_int (indexOf this d1))
     \<le> offset (slatPositions this ! nat (indexOf this d2)) +
          extent (slatPositions this ! nat (indexOf this d2)) *
            (coverageOf this d2 - of_int (indexOf this d2))"
    using coverageOf_bounds[of this d1] coverageOf_bounds[of this d2]
      coverageOf_mono[OF assms(3,5)]
    by (intro interpolation_mono[OF assms(4) ne]) (simp_all add: indexOf_def assms(2))
  then show ?thesis
    using computeTimeTop_Num[OF assms(1-3)] by simp
qed

text \<open>On the example grid, 06:30 is at pixel 25 and 08:30 at pixel 115.\<close>

theorem computeTimeTop_monotone_witness:
  "slatEls exampleTimeCols \<noteq> [] \<and>
   length (slatPositions exampleTimeCols) = length (slatEls exampleTimeCols) \<and>
   0 < asRoughMs (slotDuration exampleTimeCols) \<and>
   slatsOrdered (slatPositions exampleTimeCols) \<and>
   milliseconds (createDuration 23400000) \<le> milliseconds (createDuration 30600000) \<and>
   (\<exists>t1 t2. computeTimeTop exampleTimeCols (createDuration 23400000) = Num t1 \<and>
      computeTimeTop exampleTimeCols (createDuration 30600000) = Num t2 \<and> t1 \<le> t2)"
proof -
  have h: "slatEls exampleTimeCols \<noteq> []"
    "length (slatPositions exampleTimeCols) = length (slatEls exampleTimeCols)"
    "0 < asRoughMs (slotDuration exampleTimeCols)"
    "slatsOrdered (slatPositions exampleTimeCols)"
    "milliseconds (createDuration 23400000) \<le> milliseconds (createDuration 30600000)"
    by (simp_all add: exampleTimeCols_def initialTimeCols_def processOptions_def
          wholeDivideDurations_def asRoughMs_def createDuration_def farEdge_def Let_def)
  show ?thesis
    using h computeTimeTop_monotone[OF h] by simp
qed

text \<open>
  Claim C4. For segments whose columns have a cell, \<open>computeSegVerticals\<close> assigns to
  each segment of the input list \<open>top = computeDateTop(seg.start, dayStart)\<close> and
  \<open>bottom = max(top + eventMinHeight, computeDateTop(seg.end, dayStart))\<close>, where
  \<open>dayStart\<close> is the date of the cell of the segment's column. Consequently, on a measured
  grid with at least one slat and a positive slot duration, every processed segment has
  \<open>bottom \<ge> top + eventMinHeight\<close>.
\<close>

theorem computeSegVerticals_min_height:
  assumes "\<forall>seg\<in>set segs. 0 \<le> seg_col seg \<and> seg_col seg < int (length (cells (props this)))"
  shows "\<exists>segs'. computeSegVerticals this segs = Inr segs' \<and> length segs' = length segs \<and>
     (\<forall>i<length segs.
        let dayStart = date (cells (props this) ! nat (seg_col (segs ! i)));
            top0 = computeDateTop this (seg_start (segs ! i)) (Some dayStart);
            end0 = computeDateTop this (seg_end (segs ! i)) (Some dayStart)
        in seg_top (segs' ! i) = Some top0 \<and>
           seg_bottom (segs' ! i) =
             Some (js_max (js_add top0 (Num (timeGridEventMinHeight (options this)))) end0)) \<and>
     (slatEls this \<noteq> [] \<and> length (slatPositions this) = length (slatEls this) \<and>
      0 < asRoughMs (slotDuration this) \<longrightarrow>
        (\<forall>seg'\<in>set segs'. \<exists>t b. seg_top seg' = Some (Num t) \<and> seg_bottom seg' = Some (Num b) \<and>
           t + timeGridEventMinHeight (options this) \<le> b))"
proof -
  let ?f = "\<lambda>seg.
        seg\<lparr>seg_top :=
              Some (computeDateTop this (seg_start seg)
                      (Some (date (cells (props this) ! nat (seg_col seg))))),
            seg_bottom :=
              Some (js_max
                 (js_add
                    (computeDateTop this (seg_start seg)
                       (Some (date (cells (props this) ! nat (seg_col seg)))))
                    (Num (timeGridEventMinHeight (options this))))
                 (computeDateTop this (seg_end seg)
                    (Some (date (cells (props this) ! nat (seg_col seg))))))\<rparr>"
  have r: "computeSegVerticals this segs = Inr (map ?f segs)"
    using computeSegVerticals_Inr[OF assms] .
  have fields: "\<forall>i<length segs.
        let dayStart = date (cells (props this) ! nat (seg_col (segs ! i)));
            top0 = computeDateTop this (seg_start (segs ! i)) (Some dayStart);
            end0 = computeDateTop this (seg_end (segs ! i)) (Some dayStart)
        in seg_top (map ?f segs ! i) = Some top0 \<and>
           seg_bottom (map ?f segs ! i) =
             Some (js_max (js_add top0 (Num (timeGridEventMinHeight (options this)))) end0)"
    by (simp add: Let_def)
  have fin: "\<forall>seg'\<in>set (map ?f segs). \<exists>t b. seg_top seg' = Some (Num t) \<and>
        seg_bottom seg' = Some (Num b) \<and> t + timeGridEventMinHeight (options this) \<le> b"
    if m: "slatEls this \<noteq> [] \<and> length (slatPositions this) = length (slatEls this) \<and>
      0 < asRoughMs (slotDuration this)"
  proof
    fix seg' assume "seg' \<in> set (map ?f segs)"
    then obtain seg where seg': "seg' = ?f seg" by auto
    from m obtain t where t: "computeDateTop this (seg_start seg)
        (Some (date (cells (props this) ! nat (seg_col seg)))) = Num t"
      using computeDateTop_Num[of this] by blast
    from m obtain e where e: "computeDateTop this (seg_end seg)
        (Some (date (cells (props this) ! nat (seg_col seg)))) = Num e"
      using computeDateTop_Num[of this] by blast
    show "\<exists>t b. seg_top seg' = Some (Num t) \<and> seg_bottom seg' = Some (Num b) \<and>
        t + timeGridEventMinHeight (options this) \<le> b"
      using seg' t e by simp
  qed
  show ?thesis
    using r fields fin by (intro exI[of _ "map ?f segs"]) simp
qed

text \<open>
  On the example grid, with a minimum height of 10: the meeting gets top 25 and bottom
  115; the event that takes no time gets top 50 and bottom 60.
\<close>

theorem computeSegVerticals_min_height_witness:
  "0 \<le> seg_col meetingSeg \<and> seg_col meetingSeg < int (length (cells (props exampleTimeCols))) \<and>
   0 \<le> seg_col instantSeg \<and> seg_col instantSeg < int (length (cells (props exampleTimeCols))) \<and>
   slatEls exampleTimeCols \<noteq> [] \<and>
   length (slatPositions exampleTimeCols) = length (slatEls exampleTimeCols) \<and>
   0 < asRoughMs (slotDuration exampleTimeCols) \<and>
   computeSegVerticals exampleTimeCols [meetingSeg, instantSeg] =
     Inr [meetingSeg\<lparr>seg_top := Some (Num 25), seg_bottom := Some (Num 115)\<rparr>,
          instantSeg\<lparr>seg_top := Some (Num 50), seg_bottom := Some (Num 60)\<rparr>]"
proof -
  have c: "\<forall>seg\<in>set [meetingSeg, instantSeg].
      0 \<le> seg_col seg \<and> seg_col seg < int (length (cells (props exampleTimeCols)))"
    by (simp add: meetingSeg_def instantSeg_def exampleTimeCols_def initialTimeCols_def
          processOptions_def wholeDivideDurations_def Let_def)
  have m: "slatEls exampleTimeCols \<noteq> []"
    "length (slatPositions exampleTimeCols) = length (slatEls exampleTimeCols)"
    "0 < asRoughMs (slotDuration exampleTimeCols)"
    by (simp_all add: exampleTimeCols_def initialTimeCols_def processOptions_def
          wholeDivideDurations_def asRoughMs_def Let_def)
  have v: "computeSegVerticals exampleTimeCols [meetingSeg, instantSeg] =
     Inr [meetingSeg\<lparr>seg_top := Some (Num 25), seg_bottom := Some (Num 115)\<rparr>,
          instantSeg\<lparr>seg_top := Some (Num 50), seg_bottom := Some (Num 60)\<rparr>]"
    by (simp add: meetingSeg_def instantSeg_def exampleTimeCols_def initialTimeCols_def
          processOptions_def wholeDivideDurations_def asRoughMs_def createDuration_def
          computeDateTop_def computeTimeTop_def slatIndex_def slatCoverage_def js_sub_def
          js_get_def array_get_def tops_def getHeight_def toNumber_def Let_def)
  show ?thesis
    using c m v computeSegVerticals_min_height[OF c] by simp
qed

text \<open>
  Claim C5. For every pointer position, \<open>positionToHit\<close> returns no hit exactly when the
  column lookup on \<open>x\<close> or the slat lookup on \<open>y\<close> finds nothing. When \<open>x\<close> lies in none
  of the column intervals, or \<open>y\<close> in none of the slat intervals, it returns no hit; and a
  hit is produced only when both indices are found, its column being the one found.
\<close>

theorem positionToHit_no_hit:
  "(positionToHit this x y = Inr None \<longleftrightarrow>
      leftToIndex (colPositions this) x = None \<or> topToIndex (slatPositions this) y = None) \<and>
   ((\<forall>i<length (colPositions this).
        \<not> (offset (colPositions this ! i) \<le> x \<and> x < farEdge (colPositions this ! i))) \<longrightarrow>
      positionToHit this x y = Inr None) \<and>
   ((\<forall>i<length (slatPositions this).
        \<not> (offset (slatPositions this ! i) \<le> y \<and> y < farEdge (slatPositions this ! i))) \<longrightarrow>
      positionToHit this x y = Inr None) \<and>
   (\<forall>h. positionToHit this x y = Inr (Some h) \<longrightarrow>
      leftToIndex (colPositions this) x = Some (hit_col h) \<and>
      (\<exists>s. topToIndex (slatPositions this) y = Some s))"
proof -
  have iff: "positionToHit this x y = Inr None \<longleftrightarrow>
      leftToIndex (colPositions this) x = None \<or> topToIndex (slatPositions this) y = None"
    by (auto simp: positionToHit_def Let_def split: option.splits)
  have cols: "leftToIndex (colPositions this) x = None"
    if "\<forall>i<length (colPositions this).
        \<not> (offset (colPositions this ! i) \<le> x \<and> x < farEdge (colPositions this ! i))"
    using that positionToIndex_None[of "colPositions this" x] by (simp add: leftToIndex_def)
  have slats: "topToIndex (slatPositions this) y = None"
    if "\<forall>i<length (slatPositions this).
        \<not> (offset (slatPositions this ! i) \<le> y \<and> y < farEdge (slatPositions this ! i))"
    using that positionToIndex_None[of "slatPositions this" y] by (simp add: topToIndex_def)
  have some: "\<forall>h. positionToHit this x y = Inr (Some h) \<longrightarrow>
      leftToIndex (colPositions this) x = Some (hit_col h) \<and>
      (\<exists>s. topToIndex (slatPositions this) y = Some s)"
    by (auto simp: positionToHit_def Let_def split: option.splits)
  show ?thesis
  proof (intro conjI impI)
    show "positionToHit this x y = Inr None \<longleftrightarrow>
      leftToIndex (colPositions this) x = None \<or> topToIndex (slatPositions this) y = None"
      using iff .
  next
    assume "\<forall>i<length (colPositions this).
        \<not> (offset (colPositions this ! i) \<le> x \<and> x < farEdge (colPositions this ! i))"
    then show "positionToHit this x y = Inr None" using cols iff by simp
  next
    assume "\<forall>i<length (slatPositions this).
        \<not> (offset (slatPositions this ! i) \<le> y \<and> y < farEdge (slatPositions this ! i))"
    then show "positionToHit this x y = Inr None" using slats iff by simp
  next
    show "\<forall>h. positionToHit this x y = Inr (Some h) \<longrightarrow>
      leftToIndex (colPositions this) x = Some (hit_col h) \<and>
      (\<exists>s. topToIndex (slatPositions this) y = Some s)"
      using some .
  qed
qed

text \<open>
  The specification's grid of one column spanning [0, 100) and one slat spanning [0, 50):
  the position (150, 10) is outside the column and (50, 60) is below the slat, no hit;
  (50, 10) hits column 0.
\<close>

theorem positionToHit_no_hit_witness:
  "length (colPositions singleCellTimeCols) = 1 \<and>
   \<not> (offset (colPositions singleCellTimeCols ! 0) \<le> 150 \<and>
      150 < farEdge (colPositions singleCellTimeCols ! 0)) \<and>
   positionToHit singleCellTimeCols 150 10 = Inr None \<and>
   length (slatPositions singleCellTimeCols) = 1 \<and>
   \<not> (offset (slatPositions singleCellTimeCols ! 0) \<le> 60 \<and>
      60 < farEdge (slatPositions singleCellTimeCols ! 0)) \<and>
   positionToHit singleCellTimeCols 50 60 = Inr None \<and>
   leftToIndex (colPositions singleCellTimeCols) 50 = Some 0 \<and>
   topToIndex (slatPositions singleCellTimeCols) 10 = Some 0 \<and>
   (\<exists>h. positionToHit singleCellTimeCols 50 10 = Inr (Some h) \<and> hit_col h = 0)"
proof -
  have g: "length (colPositions singleCellTimeCols) = 1"
    "\<not> (offset (colPositions singleCellTimeCols ! 0) \<le> 150 \<and>
      150 < farEdge (colPositions singleCellTimeCols ! 0))"
    "length (slatPositions singleCellTimeCols) = 1"
    "\<not> (offset (slatPositions singleCellTimeCols ! 0) \<le> 60 \<and>
      60 < farEdge (slatPositions singleCellTimeCols ! 0))"
    by (simp_all add: singleCellTimeCols_def farEdge_def)
  have outside_cols: "\<forall>i<length (colPositions singleCellTimeCols).
      \<not> (offset (colPositions singleCellTimeCols ! i) \<le> 150 \<and>
         150 < farEdge (colPositions singleCellTimeCols ! i))"
    using g(1,2) by simp
  have outside_slats: "\<forall>i<length (slatPositions singleCellTimeCols).
      \<not> (offset (slatPositions singleCellTimeCols ! i) \<le> 60 \<and>
         60 < farEdge (slatPositions singleCellTimeCols ! i))"
    using g(3,4) by simp
  have n1: "positionToHit singleCellTimeCols 150 10 = Inr None"
    using positionToHit_no_hit[of singleCellTimeCols 150 10] outside_cols by blast
  have n2: "positionToHit singleCellTimeCols 50 60 = Inr None"
    using positionToHit_no_hit[of singleCellTimeCols 50 60] outside_slats by blast
  have l: "leftToIndex (colPositions singleCellTimeCols) 50 = Some 0"
    "topToIndex (slatPositions singleCellTimeCols) 10 = Some 0"
    by (simp_all add: singleCellTimeCols_def leftToIndex_def topToIndex_def
          positionToIndex_def farEdge_def)
  have c: "array_get (cells (props singleCellTimeCols)) (int 0) = Some \<lparr>date = 0\<rparr>"
    by (simp add: singleCellTimeCols_def exampleTimeCols_def initialTimeCols_def
          processOptions_def wholeDivideDurations_def array_get_def Let_def)
  obtain h where h: "positionToHit singleCellTimeCols 50 10 = Inr (Some h)"
    using positionToHit_found[OF l c] by simp
  then have "hit_col h = 0"
    using positionToHit_no_hit[of singleCellTimeCols 50 10] l by simp
  then show ?thesis
    using g n1 n2 l h by simp
qed

text \<open>
  Claim C6. When the column index and the slat index are found (and the column has a
  cell), \<open>positionToHit\<close> computes \<open>partial = (y - slat offset) / slat extent\<close>,
  \<open>localSnap = floor(partial * snapsPerSlot)\<close>,
  \<open>snapIndex = slatIndex * snapsPerSlot + localSnap\<close>,
  \<open>time = minTime + snapDuration * snapIndex\<close>, \<open>start\<close> = the day of the column plus
  \<open>time\<close>, and \<open>end = start + snapDuration\<close>. The numbers that give \<open>snapIndex\<close> are
  doubles, and the subtraction, the division, the two products and the sum are
  operations on doubles, each rounded to the nearest double; the slat height that divides
  is positive. Whenever the numbers are doubles as they stand and no operation rounds, as
  in the specification's example, \<open>snapIndex\<close> is the integer of the formula in exact
  arithmetic.
\<close>

theorem positionToHit_snap:
  assumes "leftToIndex (colPositions this) x = Some colIndex"
    and "topToIndex (slatPositions this) y = Some slatIndex0"
    and "array_get (cells (props this)) (int colIndex) = Some cell"
  shows "let slatTop = roundDouble (offset (slatPositions this ! slatIndex0));
             slatHeight = roundDouble (extent (slatPositions this ! slatIndex0));
             n = roundDouble (of_int (snapsPerSlot this));
             partial = roundDouble (roundDouble (roundDouble y - slatTop) / slatHeight);
             localSnap = \<lfloor>roundDouble (partial * n)\<rfloor>;
             snapIndex = roundDouble (roundDouble (real slatIndex0 * n) + of_int localSnap);
             time = of_int (milliseconds (minTime (dateProfile (props this))))
                      + of_int (milliseconds (snapDuration this)) * snapIndex;
             start = of_int (date cell) + time;
             exactTop = offset (slatPositions this ! slatIndex0);
             exactHeight = extent (slatPositions this ! slatIndex0);
             exactN = of_int (snapsPerSlot this);
             exactPartial = (y - exactTop) / exactHeight
         in 0 < slatHeight \<and>
            hitSnapIndex this y slatIndex0 = Num snapIndex \<and>
            (\<exists>h. positionToHit this x y = Inr (Some h) \<and> hit_col h = colIndex \<and>
               range_start h = Num start \<and>
               range_end h = Num (start + of_int (milliseconds (snapDuration this)))) \<and>
            (isDouble y \<and> isDouble exactTop \<and> isDouble exactHeight \<and> isDouble exactN \<and>
             isDouble (y - exactTop) \<and> isDouble exactPartial \<and>
             isDouble (exactPartial * exactN) \<and>
             isDouble (real slatIndex0 * exactN) \<and>
             isDouble (real slatIndex0 * exactN + of_int \<lfloor>exactPartial * exactN\<rfloor>) \<longrightarrow>
               snapIndex =
                 of_int (int slatIndex0 * snapsPerSlot this + \<lfloor>exactPartial * exactN\<rfloor>))"
proof -
  have e: "0 < roundDouble (extent (slatPositions this ! slatIndex0))"
    using hitPartial_Num[OF assms(2)] by (intro roundDouble_pos) simp
  show ?thesis
    using e hitSnapIndex_Num[OF assms(2)] positionToHit_found[OF assms]
    by (simp add: snapIndexOf_def isDouble_def Let_def)
qed

text \<open>
  The specification's example: slots of 60 minutes and snaps of 15 give 4 snaps per slot;
  at \<open>y = 115\<close>, half way through slat 2 which spans [100, 130), no operation rounds, the
  local snap is 2, the snap index 10 and the time \<open>minTime\<close> + 150 minutes, here 06:00 +
  02:30 = 08:30 on the day of column 0; the range ends 15 minutes later. On the grid of
  90 snaps per slot, at \<open>y = 7\<close> in the slat spanning [0, 10), the fraction is the double
  nearest to 0.7 and its product with 90 the double just below 63: the snap index is 62,
  and the range starts at 06:00 + 62 minutes.
\<close>

theorem positionToHit_snap_witness:
  "snapsPerSlot exampleTimeCols = 4 \<and>
   leftToIndex (colPositions exampleTimeCols) 50 = Some 0 \<and>
   topToIndex (slatPositions exampleTimeCols) 115 = Some 2 \<and>
   array_get (cells (props exampleTimeCols)) (int 0) = Some \<lparr>date = 0\<rparr> \<and>
   isDouble 115 \<and> isDouble 100 \<and> isDouble 30 \<and> isDouble 4 \<and>
   isDouble (115 - 100) \<and> isDouble ((115 - 100) / 30) \<and>
   isDouble ((115 - 100) / 30 * 4) \<and> isDouble (2 * 4) \<and> isDouble (2 * 4 + 2) \<and>
   hitSnapIndex exampleTimeCols 115 2 = Num 10 \<and>
   (\<exists>h. positionToHit exampleTimeCols 50 115 = Inr (Some h) \<and> hit_col h = 0 \<and>
      range_start h
        = Num (of_int (milliseconds (minTime (dateProfile (props exampleTimeCols))) + 9000000)) \<and>
      range_start h = Num 30600000 \<and> range_end h = Num 31500000) \<and>
   snapsPerSlot fineSnapTimeCols = 90 \<and>
   leftToIndex (colPositions fineSnapTimeCols) 50 = Some 0 \<and>
   topToIndex (slatPositions fineSnapTimeCols) 7 = Some 0 \<and>
   array_get (cells (props fineSnapTimeCols)) (int 0) = Some \<lparr>date = 0\<rparr> \<and>
   hitSnapIndex fineSnapTimeCols 7 0 = Num 62 \<and>
   (\<exists>h. positionToHit fineSnapTimeCols 50 7 = Inr (Some h) \<and> hit_col h = 0 \<and>
      range_start h = Num 25320000 \<and> range_end h = Num 25380000)"
proof -
  have r: "roundDouble 115 = 115" "roundDouble 100 = 100" "roundDouble 30 = 30"
    "roundDouble 4 = 4" "roundDouble 15 = 15" "roundDouble (1 / 2) = 1 / 2"
    "roundDouble 2 = 2" "roundDouble 8 = 8" "roundDouble 10 = 10"
    by (simp_all add: roundDouble_def binaryExponent_def roundHalfEven_def compute_bitlen
          Let_def)
  have s: "snapsPerSlot exampleTimeCols = 4"
    "milliseconds (snapDuration exampleTimeCols) = 900000"
    "milliseconds (minTime (dateProfile (props exampleTimeCols))) = 21600000"
    "slatPositions exampleTimeCols ! 2 = \<lparr>offset = 100, extent = 30\<rparr>"
    by (simp_all add: exampleTimeCols_def initialTimeCols_def processOptions_def
          wholeDivideDurations_def Let_def)
  have l: "leftToIndex (colPositions exampleTimeCols) 50 = Some 0"
    "topToIndex (slatPositions exampleTimeCols) 115 = Some 2"
    "array_get (cells (props exampleTimeCols)) (int 0) = Some \<lparr>date = 0\<rparr>"
    by (simp_all add: exampleTimeCols_def initialTimeCols_def processOptions_def
          wholeDivideDurations_def leftToIndex_def topToIndex_def positionToIndex_def
          farEdge_def array_get_def Let_def)
  have a: "hitSnapIndex exampleTimeCols 115 2 = Num 10 \<and>
     (\<exists>h. positionToHit exampleTimeCols 50 115 = Inr (Some h) \<and> hit_col h = 0 \<and>
        range_start h = Num 30600000 \<and> range_end h = Num 31500000)"
    using s positionToHit_snap[OF l] by (simp add: r Let_def)
  have t: "snapsPerSlot fineSnapTimeCols = 90"
    "milliseconds (snapDuration fineSnapTimeCols) = 60000"
    "milliseconds (minTime (dateProfile (props fineSnapTimeCols))) = 21600000"
    "slatPositions fineSnapTimeCols ! 0 = \<lparr>offset = 0, extent = 10\<rparr>"
    by (simp_all add: fineSnapTimeCols_def initialTimeCols_def processOptions_def
          wholeDivideDurations_def Let_def)
  have m: "leftToIndex (colPositions fineSnapTimeCols) 50 = Some 0"
    "topToIndex (slatPositions fineSnapTimeCols) 7 = Some 0"
    "array_get (cells (props fineSnapTimeCols)) (int 0) = Some \<lparr>date = 0\<rparr>"
    by (simp_all add: fineSnapTimeCols_def initialTimeCols_def processOptions_def
          wholeDivideDurations_def leftToIndex_def topToIndex_def positionToIndex_def
          farEdge_def array_get_def Let_def)
  have q: "roundDouble 7 = 7" "roundDouble 10 = 10" "roundDouble 90 = 90"
    "roundDouble (7 / 10) = 3152519739159347 / 4503599627370496"
    "\<lfloor>roundDouble (141863388262170615 / 2251799813685248)\<rfloor> = 62"
    "roundDouble 0 = 0"
    "roundDouble 62 = 62"
    by (simp_all add: roundDouble_def binaryExponent_def roundHalfEven_def compute_bitlen
          Let_def)
  have b: "hitSnapIndex fineSnapTimeCols 7 0 = Num 62 \<and>
     (\<exists>h. positionToHit fineSnapTimeCols 50 7 = Inr (Some h) \<and> hit_col h = 0 \<and>
        range_start h = Num 25320000 \<and> range_end h = Num 25380000)"
    using t positionToHit_snap[OF m] by (simp add: q Let_def)
  show ?thesis
    using s l a t m b by (simp add: r isDouble_def)
qed

text \<open>
  Claim C7. A slat region of zero extent is never the result of the slat lookup. Hence
  whenever the lookup finds a slat, its extent is positive, and the fraction
  \<open>(positionTop - slatTop) / slatHeight\<close> of the hit test is a finite number in
  \<open>[0, 1)\<close>: the division is never by zero and never NaN. Every hit that is produced has
  finite start and end times and a finite bottom pixel.
\<close>

theorem hitPartial_defined:
  "(i < length pc \<and> extent (pc ! i) = 0 \<longrightarrow> topToIndex pc y \<noteq> Some i) \<and>
   (topToIndex pc y = Some i \<longrightarrow>
      i < length pc \<and> 0 < extent (pc ! i) \<and>
      (\<exists>p. hitPartial pc y i = Num p \<and> 0 \<le> p \<and> p < 1)) \<and>
   (positionToHit this x y = Inr (Some h) \<longrightarrow>
      (\<exists>s p. topToIndex (slatPositions this) y = Some s \<and>
         0 < extent (slatPositions this ! s) \<and>
         hitPartial (slatPositions this) y s = Num p \<and> 0 \<le> p \<and> p < 1) \<and>
      (\<exists>a b c. range_start h = Num a \<and> range_end h = Num b \<and>
         rect_bottom (relativeRect h) = Num c))"
proof (intro conjI impI)
  assume "i < length pc \<and> extent (pc ! i) = 0"
  then show "topToIndex pc y \<noteq> Some i"
    using hitPartial_Num[of pc y i] by auto
next
  assume f: "topToIndex pc y = Some i"
  show "i < length pc" using hitPartial_Num[OF f] by simp
  show "0 < extent (pc ! i)" using hitPartial_Num[OF f] by simp
  show "\<exists>p. hitPartial pc y i = Num p \<and> 0 \<le> p \<and> p < 1"
    using hitPartial_Num[OF f] by blast
next
  assume hit: "positionToHit this x y = Inr (Some h)"
  then obtain c s cell where f: "leftToIndex (colPositions this) x = Some c"
    "topToIndex (slatPositions this) y = Some s"
    "array_get (cells (props this)) (int c) = Some cell"
    using positionToHit_Some by blast
  show "\<exists>s p. topToIndex (slatPositions this) y = Some s \<and>
         0 < extent (slatPositions this ! s) \<and>
         hitPartial (slatPositions this) y s = Num p \<and> 0 \<le> p \<and> p < 1"
    using f(2) hitPartial_Num[OF f(2)] by blast
  show "\<exists>a b c. range_start h = Num a \<and> range_end h = Num b \<and>
         rect_bottom (relativeRect h) = Num c"
    using hit positionToHit_found[OF f] by auto
qed

text \<open>
  On the grid whose middle slat has collapsed, \<open>y = 50\<close> is the top of both the collapsed
  slat 1 and slat 2: the lookup finds slat 2, the fraction is 0, and the hit at (50, 50)
  is the snap from 08:00 to 08:15.
\<close>

theorem hitPartial_defined_witness:
  "1 < length (slatPositions collapsedSlatTimeCols) \<and>
   extent (slatPositions collapsedSlatTimeCols ! 1) = 0 \<and>
   topToIndex (slatPositions collapsedSlatTimeCols) 50 \<noteq> Some 1 \<and>
   topToIndex (slatPositions collapsedSlatTimeCols) 50 = Some 2 \<and>
   0 < extent (slatPositions collapsedSlatTimeCols ! 2) \<and>
   hitPartial (slatPositions collapsedSlatTimeCols) 50 2 = Num 0 \<and>
   (\<exists>h. positionToHit collapsedSlatTimeCols 50 50 = Inr (Some h) \<and>
      range_start h = Num 28800000 \<and> range_end h = Num 29700000 \<and>
      rect_bottom (relativeRect h) = Num 80)"
proof -
  have z: "1 < length (slatPositions collapsedSlatTimeCols) \<and>
      extent (slatPositions collapsedSlatTimeCols ! 1) = 0"
    by (simp add: collapsedSlatTimeCols_def)
  have l: "leftToIndex (colPositions collapsedSlatTimeCols) 50 = Some 0"
    "topToIndex (slatPositions collapsedSlatTimeCols) 50 = Some 2"
    "array_get (cells (props collapsedSlatTimeCols)) (int 0) = Some \<lparr>date = 0\<rparr>"
    by (simp_all add: collapsedSlatTimeCols_def exampleTimeCols_def initialTimeCols_def
          processOptions_def wholeDivideDurations_def leftToIndex_def topToIndex_def
          positionToIndex_def farEdge_def array_get_def Let_def)
  have r: "roundDouble 0 = 0" "roundDouble 8 = 8" "roundDouble 50 = 50"
    "roundDouble 30 = 30" "roundDouble 4 = 4"
    by (simp_all add: roundDouble_def binaryExponent_def roundHalfEven_def compute_bitlen
          Let_def)
  have p: "hitPartial (slatPositions collapsedSlatTimeCols) 50 2 = Num 0"
    using hitPartial_Num[OF l(2)] by (simp add: collapsedSlatTimeCols_def)
  have h: "\<exists>h. positionToHit collapsedSlatTimeCols 50 50 = Inr (Some h) \<and>
      range_start h = Num 28800000 \<and> range_end h = Num 29700000 \<and>
      rect_bottom (relativeRect h) = Num 80"
    using positionToHit_found[OF l]
    by (simp add: collapsedSlatTimeCols_def exampleTimeCols_def initialTimeCols_def
          processOptions_def wholeDivideDurations_def snapIndexOf_def r Let_def)
  from h obtain h0 where h0: "positionToHit collapsedSlatTimeCols 50 50 = Inr (Some h0)"
    by blast
  show ?thesis
    using z l p h
      hitPartial_defined[of 1 "slatPositions collapsedSlatTimeCols" 50 collapsedSlatTimeCols 50 h0]
      hitPartial_defined[of 2 "slatPositions collapsedSlatTimeCols" 50 collapsedSlatTimeCols 50 h0]
    by simp
qed

text \<open>
  Claim C8. The now-indicator renderer produces no node at all for an empty set of
  segments, and this is not an error. For a non-empty set of segments whose columns have
  a container, and a current date, it produces one line node per segment, appended to the
  container of the segment's column, followed by exactly one arrow node appended to the
  root element, all of them at the one pixel offset that \<open>computeTimeTop\<close> gives for the
  time of day of the current date.
\<close>

theorem renderNowIndicator_nodes:
  "renderNowIndicator this date0 [] = Inr [] \<and>
   (segs \<noteq> [] \<and>
    (\<forall>seg\<in>set segs. 0 \<le> seg_col seg \<and> seg_col seg < int (length (colContainerEls this))) \<longrightarrow>
      renderNowIndicator this (Some d) segs =
        Inr (map (\<lambda>seg.
                \<lparr>className = ''fc-now-indicator fc-now-indicator-line'',
                 style_top = computeTimeTop this (createDuration (d - startOfDay d)),
                 appendedTo = colContainerEls this ! nat (seg_col seg)\<rparr>) segs
             @ [\<lparr>className = ''fc-now-indicator fc-now-indicator-arrow'',
                 style_top = computeTimeTop this (createDuration (d - startOfDay d)),
                 appendedTo = rootEl this\<rparr>]))"
proof (intro conjI impI)
  show "renderNowIndicator this date0 [] = Inr []"
    by (simp add: renderNowIndicator_def Let_def split: option.splits)
next
  assume a: "segs \<noteq> [] \<and>
    (\<forall>seg\<in>set segs. 0 \<le> seg_col seg \<and> seg_col seg < int (length (colContainerEls this)))"
  then have "renderLines this (computeDateTop this d None) segs =
     Inr (map (\<lambda>seg. \<lparr>className = ''fc-now-indicator fc-now-indicator-line'',
                       style_top = computeDateTop this d None,
                       appendedTo = colContainerEls this ! nat (seg_col seg)\<rparr>) segs)"
    using renderLines_Inr[of segs this "computeDateTop this d None"] by simp
  then show "renderNowIndicator this (Some d) segs =
        Inr (map (\<lambda>seg.
                \<lparr>className = ''fc-now-indicator fc-now-indicator-line'',
                 style_top = computeTimeTop this (createDuration (d - startOfDay d)),
                 appendedTo = colContainerEls this ! nat (seg_col seg)\<rparr>) segs
             @ [\<lparr>className = ''fc-now-indicator fc-now-indicator-arrow'',
                 style_top = computeTimeTop this (createDuration (d - startOfDay d)),
                 appendedTo = rootEl this\<rparr>])"
    using a by (simp add: renderNowIndicator_def computeDateTop_def Let_def)
qed

text \<open>
  On the example grid at 07:00 of the first day, with a segment in each of the two
  columns: two lines and the arrow, all at pixel 50.
\<close>

theorem renderNowIndicator_nodes_witness:
  "renderNowIndicator exampleTimeCols (Some 25200000) [] = Inr [] \<and>
   nowSegs \<noteq> [] \<and>
   0 \<le> seg_col (nowSegs ! 0) \<and>
   seg_col (nowSegs ! 0) < int (length (colContainerEls exampleTimeCols)) \<and>
   0 \<le> seg_col (nowSegs ! 1) \<and>
   seg_col (nowSegs ! 1) < int (length (colContainerEls exampleTimeCols)) \<and>
   renderNowIndicator exampleTimeCols (Some 25200000) nowSegs =
     Inr [\<lparr>className = ''fc-now-indicator fc-now-indicator-line'', style_top = Num 50,
           appendedTo = 1\<rparr>,
          \<lparr>className = ''fc-now-indicator fc-now-indicator-line'', style_top = Num 50,
           appendedTo = 2\<rparr>,
          \<lparr>className = ''fc-now-indicator fc-now-indicator-arrow'', style_top = Num 50,
           appendedTo = 0\<rparr>]"
proof -
  have c: "nowSegs \<noteq> [] \<and>
    (\<forall>seg\<in>set nowSegs. 0 \<le> seg_col seg \<and> seg_col seg < int (length (colContainerEls exampleTimeCols)))"
    by (simp add: nowSegs_def exampleTimeCols_def initialTimeCols_def processOptions_def
          wholeDivideDurations_def Let_def)
  have t: "computeTimeTop exampleTimeCols (createDuration (25200000 - startOfDay 25200000)) = Num 50"
    by (simp add: startOfDay_def exampleTimeCols_def initialTimeCols_def
          processOptions_def wholeDivideDurations_def asRoughMs_def createDuration_def
          computeTimeTop_def slatIndex_def slatCoverage_def js_sub_def
          js_get_def array_get_def tops_def getHeight_def toNumber_def Let_def)
  have e: "colContainerEls exampleTimeCols = [1, 2]" "rootEl exampleTimeCols = 0"
    by (simp_all add: exampleTimeCols_def initialTimeCols_def processOptions_def
          wholeDivideDurations_def Let_def)
  have n: "map seg_col nowSegs = [0, 1]"
    by (simp add: nowSegs_def)
  show ?thesis
    using c t e n renderNowIndicator_nodes[of exampleTimeCols "Some 25200000" nowSegs 25200000]
    by (simp add: nowSegs_def)
qed

text \<open>
  Claim C9, as amended. For every processed segment, the stored \<open>bottom\<close> is a pixel
  relative to the top of the grid, in the coordinates of \<open>top\<close>: it is
  \<open>max(top + eventMinHeight, computeDateTop(seg.end, dayStart))\<close>. It is flipped only when
  the verticals are applied to an element: the style is the pair of \<open>top\<close>, the stored
  top, and \<open>bottom\<close>, the negated stored bottom, rather than a top and a height.
\<close>

theorem generateSegVerticalCss_flips_bottom:
  assumes "computeSegVerticals this segs = Inr segs'"
    and "seg' \<in> set segs'"
  shows "let dayStart = date (cells (props this) ! nat (seg_col seg'));
             top0 = computeDateTop this (seg_start seg') (Some dayStart);
             bottom0 =
               js_max (js_add top0 (Num (timeGridEventMinHeight (options this))))
                 (computeDateTop this (seg_end seg') (Some dayStart))
         in seg_top seg' = Some top0 \<and> seg_bottom seg' = Some bottom0 \<and>
            generateSegVerticalCss seg' = \<lparr>css_top = Some top0, css_bottom = js_neg bottom0\<rparr>"
proof -
  let ?f = "\<lambda>seg.
        seg\<lparr>seg_top :=
              Some (computeDateTop this (seg_start seg)
                      (Some (date (cells (props this) ! nat (seg_col seg))))),
            seg_bottom :=
              Some (js_max
                 (js_add
                    (computeDateTop this (seg_start seg)
                       (Some (date (cells (props this) ! nat (seg_col seg)))))
                    (Num (timeGridEventMinHeight (options this))))
                 (computeDateTop this (seg_end seg)
                    (Some (date (cells (props this) ! nat (seg_col seg))))))\<rparr>"
  have "segs' = map ?f segs"
    using assms(1) computeSegVerticals_Inr[OF computeSegVerticals_cols[OF assms(1)]] by simp
  then obtain seg where "seg' = ?f seg"
    using assms(2) by auto
  then show ?thesis
    by (simp add: generateSegVerticalCss_def Let_def)
qed

text \<open>
  On the example grid the meeting from 06:30 to 08:30 gets top 25 and bottom 115, and the
  style \<open>top: 25, bottom: -115\<close>.
\<close>

theorem generateSegVerticalCss_flips_bottom_witness:
  "computeSegVerticals exampleTimeCols [meetingSeg] =
     Inr [meetingSeg\<lparr>seg_top := Some (Num 25), seg_bottom := Some (Num 115)\<rparr>] \<and>
   meetingSeg\<lparr>seg_top := Some (Num 25), seg_bottom := Some (Num 115)\<rparr>
     \<in> set [meetingSeg\<lparr>seg_top := Some (Num 25), seg_bottom := Some (Num 115)\<rparr>] \<and>
   generateSegVerticalCss (meetingSeg\<lparr>seg_top := Some (Num 25), seg_bottom := Some (Num 115)\<rparr>)
     = \<lparr>css_top = Some (Num 25), css_bottom = Num (- 115)\<rparr>"
proof -
  have v: "computeSegVerticals exampleTimeCols [meetingSeg] =
     Inr [meetingSeg\<lparr>seg_top := Some (Num 25), seg_bottom := Some (Num 115)\<rparr>]"
    by (simp add: meetingSeg_def exampleTimeCols_def initialTimeCols_def
          processOptions_def wholeDivideDurations_def asRoughMs_def createDuration_def
          computeDateTop_def computeTimeTop_def slatIndex_def slatCoverage_def js_sub_def
          js_get_def array_get_def tops_def getHeight_def toNumber_def Let_def)
  have m: "meetingSeg\<lparr>seg_top := Some (Num 25), seg_bottom := Some (Num 115)\<rparr>
     \<in> set [meetingSeg\<lparr>seg_top := Some (Num 25), seg_bottom := Some (Num 115)\<rparr>]"
    by simp
  have g: "generateSegVerticalCss
      (meetingSeg\<lparr>seg_top := Some (Num 25), seg_bottom := Some (Num 115)\<rparr>)
     = \<lparr>css_top = Some (Num 25), css_bottom = Num (- 115)\<rparr>"
    by (simp add: generateSegVerticalCss_def)
  show ?thesis
    using generateSegVerticalCss_flips_bottom[OF v m]
    by (intro conjI) (rule v, rule m, rule g)
qed

text \<open>
  The claim as stated, "the stored bottom field is a distance from the container's bottom
  edge (not an absolute top-relative pixel)", fails on the example grid, whose slat
  container is 130 pixels high: the meeting ends at 08:30, which is pixel 115 from the
  top and 15 from the bottom edge, and the stored bottom is the top-relative 115.
\<close>

theorem computeSegVerticals_bottom_counterexample:
  "computeDateTop exampleTimeCols (seg_end meetingSeg) (Some 0) = Num 115 \<and>
   distanceFromBottomEdge exampleTimeCols 115 = 15 \<and>
   (\<exists>seg'. computeSegVerticals exampleTimeCols [meetingSeg] = Inr [seg'] \<and>
      seg_bottom seg' = Some (computeDateTop exampleTimeCols (seg_end meetingSeg) (Some 0)) \<and>
      seg_bottom seg' \<noteq> Some (Num (distanceFromBottomEdge exampleTimeCols 115)))"
  by (simp add: meetingSeg_def exampleTimeCols_def initialTimeCols_def
        distanceFromBottomEdge_def getTotalSlatHeight_def
        processOptions_def wholeDivideDurations_def asRoughMs_def createDuration_def
        computeDateTop_def computeTimeTop_def slatIndex_def slatCoverage_def js_sub_def
        js_get_def array_get_def tops_def getHeight_def toNumber_def Let_def)

text \<open>
  Claim C10. With a positive slot duration, for every duration: if the slat list is not
  empty (and measured), the slat index computed by \<open>computeTimeTop\<close> is an integer in
  \<open>[0, len - 1]\<close> and both cache reads are inside the cache; if the slat list is empty,
  the clamp \<open>Math.min(slatIndex, len - 1)\<close> yields \<open>-1\<close>, the reads are outside the
  position cache and find nothing, and the function returns NaN; nothing is raised.
\<close>

theorem computeTimeTop_slatIndex_range:
  assumes "0 < asRoughMs (slotDuration this)"
  shows "(slatEls this \<noteq> [] \<and> length (slatPositions this) = length (slatEls this) \<longrightarrow>
            (\<exists>i. slatIndex this duration = Num (of_int i) \<and>
               0 \<le> i \<and> i \<le> int (length (slatEls this)) - 1 \<and>
               js_get (tops (slatPositions this)) (slatIndex this duration)
                 = Some (offset (slatPositions this ! nat i)) \<and>
               getHeight (slatPositions this) (slatIndex this duration)
                 = Num (extent (slatPositions this ! nat i)))) \<and>
         (slatEls this = [] \<longrightarrow>
            slatIndex this duration = Num (- 1) \<and>
            js_get (tops (slatPositions this)) (slatIndex this duration) = None \<and>
            getHeight (slatPositions this) (slatIndex this duration) = NaN \<and>
            computeTimeTop this duration = NaN)"
proof (intro conjI impI)
  assume a: "slatEls this \<noteq> [] \<and> length (slatPositions this) = length (slatEls this)"
  then have b: "0 \<le> indexOf this duration"
    "indexOf this duration \<le> int (length (slatEls this)) - 1"
    "nat (indexOf this duration) < length (slatPositions this)"
    using indexOf_bounds[of this duration] by auto
  then show "\<exists>i. slatIndex this duration = Num (of_int i) \<and>
       0 \<le> i \<and> i \<le> int (length (slatEls this)) - 1 \<and>
       js_get (tops (slatPositions this)) (slatIndex this duration)
         = Some (offset (slatPositions this ! nat i)) \<and>
       getHeight (slatPositions this) (slatIndex this duration)
         = Num (extent (slatPositions this ! nat i))"
    by (intro exI[of _ "indexOf this duration"])
       (simp add: slatIndex_Num[OF assms] js_get_int array_get_def tops_def getHeight_def
          toNumber_def)
next
  assume e: "slatEls this = []"
  then show "slatIndex this duration = Num (- 1)"
    using slatIndex_Num[OF assms, of duration] indexOf_empty[OF e, of duration] by simp
  then show "js_get (tops (slatPositions this)) (slatIndex this duration) = None"
    by (simp add: js_get_neg)
  show "getHeight (slatPositions this) (slatIndex this duration) = NaN"
    using \<open>slatIndex this duration = Num (- 1)\<close>
    by (simp add: getHeight_def js_get_neg toNumber_def)
  show "computeTimeTop this duration = NaN"
    using computeTimeTop_empty[OF e assms] .
qed

text \<open>
  On the example grid 08:30 has slat index 2; on the grid without slats it has slat index
  -1 and no pixel.
\<close>

theorem computeTimeTop_slatIndex_range_witness:
  "0 < asRoughMs (slotDuration exampleTimeCols) \<and>
   slatEls exampleTimeCols \<noteq> [] \<and>
   length (slatPositions exampleTimeCols) = length (slatEls exampleTimeCols) \<and>
   slatIndex exampleTimeCols (createDuration 30600000) = Num 2 \<and>
   0 < asRoughMs (slotDuration noSlatTimeCols) \<and>
   slatEls noSlatTimeCols = [] \<and>
   slatIndex noSlatTimeCols (createDuration 30600000) = Num (- 1) \<and>
   js_get (tops (slatPositions noSlatTimeCols))
     (slatIndex noSlatTimeCols (createDuration 30600000)) = None \<and>
   computeTimeTop noSlatTimeCols (createDuration 30600000) = NaN"
proof -
  have h: "0 < asRoughMs (slotDuration exampleTimeCols)"
    "0 < asRoughMs (slotDuration noSlatTimeCols)"
    by (simp_all add: noSlatTimeCols_def exampleTimeCols_def initialTimeCols_def
          processOptions_def wholeDivideDurations_def asRoughMs_def Let_def)
  have n: "slatEls exampleTimeCols \<noteq> []"
    "length (slatPositions exampleTimeCols) = length (slatEls exampleTimeCols)"
    by (simp_all add: exampleTimeCols_def initialTimeCols_def processOptions_def
          wholeDivideDurations_def Let_def)
  have e: "slatEls noSlatTimeCols = []"
    by (simp add: noSlatTimeCols_def)
  have i: "slatIndex exampleTimeCols (createDuration 30600000) = Num 2"
    by (simp add: slatIndex_def slatCoverage_def js_sub_def exampleTimeCols_def
          initialTimeCols_def processOptions_def wholeDivideDurations_def asRoughMs_def
          createDuration_def Let_def)
  show ?thesis
    using h n e i computeTimeTop_slatIndex_range[OF h(1), of "createDuration 30600000"]
      computeTimeTop_slatIndex_range[OF h(2), of "createDuration 30600000"]
    by (simp add: js_get_neg)
qed

end
